theory Spec2Isabelle
  imports Complex_Main "HOL-Library.Sublist" "HOL-Library.Multiset"
begin

section \<open>Python values\<close>

text \<open>
  The analyzers work on the decoded JSON of the provider and of the reasoning service:
  untyped Python values. A dict is an association list (a lookup takes the first binding of
  a key; a decoded JSON object has each key once). Numbers are Python ints (JSON floats
  are left out). A string is a list of code points of the Latin-1 range, one \<open>char\<close>
  each, which covers every literal of the source (\<open>CHR 0xC9\<close> is the capital E with
  acute accent of the role label, \<open>CHR 0xE7\<close> the c with cedilla, and so on).
\<close>

datatype json =
    JNull
  | JBool bool
  | JNum int
  | JStr string
  | JArr "json list"
  | JObj "(string \<times> json) list"

text \<open>
  The exceptions the dynamic operations of the source raise on a value of the wrong shape,
  and \<open>Raised msg\<close> for an exception raised by a collaborator (the HTTP client, the
  reasoning service, a progress callback), with its text.
\<close>

datatype py_exn = AttributeError | TypeError | KeyError | IndexError | Raised string

definition py_bind :: "py_exn + 'a \<Rightarrow> ('a \<Rightarrow> py_exn + 'b) \<Rightarrow> py_exn + 'b" where
  "py_bind m f = (case m of Inl e \<Rightarrow> Inl e | Inr x \<Rightarrow> f x)"

text \<open>Truth value of a Python object, as \<open>if x:\<close>, \<open>not x\<close> and \<open>x or y\<close> test it.\<close>

fun py_truthy :: "json \<Rightarrow> bool" where
  "py_truthy JNull = False"
| "py_truthy (JBool b) = b"
| "py_truthy (JNum n) = (n \<noteq> 0)"
| "py_truthy (JStr s) = (s \<noteq> [])"
| "py_truthy (JArr xs) = (xs \<noteq> [])"
| "py_truthy (JObj kvs) = (kvs \<noteq> [])"

text \<open>
  Python's \<open>==\<close>: a bool is the int 0 or 1, lists compare element by element, dicts
  compare as finite maps, values of different kinds are unequal.
\<close>

fun py_eq :: "json \<Rightarrow> json \<Rightarrow> bool" where
  "py_eq JNull JNull = True"
| "py_eq (JBool a) (JBool b) = (a = b)"
| "py_eq (JBool a) (JNum n) = ((if a then 1 else 0) = n)"
| "py_eq (JNum n) (JBool a) = ((if a then 1 else 0) = n)"
| "py_eq (JNum m) (JNum n) = (m = n)"
| "py_eq (JStr s) (JStr t) = (s = t)"
| "py_eq (JArr xs) (JArr ys) = list_all2 py_eq xs ys"
| "py_eq (JObj xs) (JObj ys) =
     (length xs = length ys \<and>
      list_all (\<lambda>(k, v). case map_of ys k of None \<Rightarrow> False | Some w \<Rightarrow> py_eq v w) xs)"
| "py_eq _ _ = False"

definition dict_get :: "(string \<times> json) list \<Rightarrow> string \<Rightarrow> json \<Rightarrow> json" where
  "dict_get kvs k d = (case map_of kvs k of None \<Rightarrow> d | Some v \<Rightarrow> v)"

text \<open>\<open>x.get(k, d)\<close>: only a dict has the method.\<close>

fun py_get :: "json \<Rightarrow> string \<Rightarrow> json \<Rightarrow> py_exn + json" where
  "py_get (JObj kvs) k d = Inr (dict_get kvs k d)"
| "py_get _ k d = Inl AttributeError"

text \<open>\<open>k in x\<close> for a string \<open>k\<close>: a key of a dict, an element of a list, a substring of a string.\<close>

fun py_in :: "string \<Rightarrow> json \<Rightarrow> py_exn + bool" where
  "py_in k (JObj kvs) = Inr (k \<in> set (map fst kvs))"
| "py_in k (JArr xs) = Inr (list_ex (\<lambda>x. py_eq x (JStr k)) xs)"
| "py_in k (JStr s) = Inr (sublist k s)"
| "py_in k _ = Inl TypeError"

text \<open>\<open>x[k]\<close> for a string \<open>k\<close>, and \<open>x[0]\<close>.\<close>

fun py_item :: "json \<Rightarrow> string \<Rightarrow> py_exn + json" where
  "py_item (JObj kvs) k = (case map_of kvs k of None \<Rightarrow> Inl KeyError | Some v \<Rightarrow> Inr v)"
| "py_item _ k = Inl TypeError"

fun py_item0 :: "json \<Rightarrow> py_exn + json" where
  "py_item0 (JArr []) = Inl IndexError"
| "py_item0 (JArr (x # xs)) = Inr x"
| "py_item0 (JStr []) = Inl IndexError"
| "py_item0 (JStr (c # s)) = Inr (JStr [c])"
| "py_item0 (JObj kvs) = Inl KeyError"
| "py_item0 _ = Inl TypeError"

text \<open>\<open>for x in v\<close>: the elements of a list, the characters of a string, the keys of a dict.\<close>

fun py_iter :: "json \<Rightarrow> py_exn + json list" where
  "py_iter (JArr xs) = Inr xs"
| "py_iter (JStr s) = Inr (map (\<lambda>c. JStr [c]) s)"
| "py_iter (JObj kvs) = Inr (map (\<lambda>kv. JStr (fst kv)) kvs)"
| "py_iter _ = Inl TypeError"

subsection \<open>String methods\<close>

text \<open>
  \<open>str.upper\<close>, \<open>str.lower\<close> and \<open>str.strip\<close> on the Latin-1 range. Python sends the
  sharp s (223) to \<open>SS\<close>; it sends the micro sign (181) and the y with diaeresis (255) to
  capitals outside the range, which here stay as they are: no other character of the range
  has either as its capital, so every comparison and substring test between uppercased
  strings has the value it has in Python.
\<close>

definition py_upper_char :: "char \<Rightarrow> string" where
  "py_upper_char c =
     (let n = (of_char c :: nat) in
      if (97 \<le> n \<and> n \<le> 122) \<or> (224 \<le> n \<and> n \<le> 254 \<and> n \<noteq> 247) then [char_of (n - 32)]
      else if n = 223 then ''SS''
      else [c])"

definition py_upper :: "string \<Rightarrow> string" where
  "py_upper s = concat (map py_upper_char s)"

definition py_lower_char :: "char \<Rightarrow> char" where
  "py_lower_char c =
     (let n = (of_char c :: nat) in
      if (65 \<le> n \<and> n \<le> 90) \<or> (192 \<le> n \<and> n \<le> 222 \<and> n \<noteq> 215) then char_of (n + 32)
      else c)"

definition py_lower :: "string \<Rightarrow> string" where
  "py_lower s = map py_lower_char s"

definition py_isspace :: "char \<Rightarrow> bool" where
  "py_isspace c =
     (let n = (of_char c :: nat) in
      (9 \<le> n \<and> n \<le> 13) \<or> (28 \<le> n \<and> n \<le> 32) \<or> n = 133 \<or> n = 160)"

definition py_strip :: "string \<Rightarrow> string" where
  "py_strip s = rev (dropWhile py_isspace (rev (dropWhile py_isspace s)))"

text \<open>The methods called on a value that need not be a string.\<close>

fun str_upper :: "json \<Rightarrow> py_exn + string" where
  "str_upper (JStr s) = Inr (py_upper s)"
| "str_upper _ = Inl AttributeError"

fun str_strip :: "json \<Rightarrow> py_exn + string" where
  "str_strip (JStr s) = Inr (py_strip s)"
| "str_strip _ = Inl AttributeError"

text \<open>\<open>sep.join(parts)\<close>.\<close>

fun py_join :: "string \<Rightarrow> string list \<Rightarrow> string" where
  "py_join sep [] = []"
| "py_join sep [x] = x"
| "py_join sep (x # y # ys) = x @ sep @ py_join sep (y # ys)"

section \<open>Results\<close>

text \<open>
  The result dicts of both analyzers have fixed keys. The keys they share are the fields of
  \<open>result\<close>; the keyword analyzer and the analyzer with the reasoning service each add
  their own. \<open>foi_absolvido\<close> holds the Python value \<open>True\<close>, \<open>False\<close> or \<open>None\<close>
  (and, with the reasoning service, whatever the service answered). The status string is
  kept as its tag and the value formatted into it: \<open>sucesso\<close>, \<open>dados_nao_encontrados\<close>,
  \<open>erro: e\<close>, \<open>erro_api: v\<close>, \<open>excecao: e\<close>.
\<close>

datatype status = Sucesso | DadosNaoEncontrados | Erro py_exn | ErroApi json | Excecao py_exn

record finding =
  processo :: json
  tipo_decisao :: string
  data :: json
  orgao :: json
  comarca :: json
  trecho_decisao :: string

record result =
  cpf :: string
  nome :: json
  foi_absolvido :: json
  total_processos_criminais :: nat
  status :: status

record kw_result = result +
  total_absolvicoes :: nat
  detalhes_absolvicoes :: "finding list"

record llm_result = result +
  confianca_analise :: json
  justificativa :: json
  detalhes_ia :: json

section \<open>Fetching one identifier\<close>

text \<open>
  The provider is a collaborator: \<open>provider q\<close> is what the POST for the sanitized
  identifier \<open>q\<close> ends in, an exception (of the transport, of \<open>raise_for_status\<close>, of the
  JSON decoder) with its text or the decoded body. \<open>fetch_single_cpf_data\<close> returns its
  dict together with the requests it issued. Both analyzers fetch in the same way (they ask
  for different datasets).
\<close>

datatype http_reply = HttpFails string | HttpJson json

definition is_digit :: "char \<Rightarrow> bool" where
  "is_digit c = (c \<in> set ''0123456789'')"

definition cpf_invalido :: string where
  "cpf_invalido = ''CPF inv'' @ [CHR 0xE1] @ ''lido''"

definition fetch_single_cpf_data :: "(string \<Rightarrow> http_reply) \<Rightarrow> string \<Rightarrow> json \<times> string list" where
  "fetch_single_cpf_data provider cpf_raw =
     (let cpf_sanitizado = filter is_digit cpf_raw in
      if length cpf_sanitizado \<noteq> 11
      then (JObj [(''cpf'', JStr cpf_raw), (''error'', JStr cpf_invalido)], [])
      else (case provider cpf_sanitizado of
              HttpFails msg \<Rightarrow> (JObj [(''cpf'', JStr cpf_raw), (''error'', JStr msg)], [cpf_sanitizado])
            | HttpJson body \<Rightarrow> (body, [cpf_sanitizado])))"

section \<open>The defendant filter\<close>

definition reu :: string where
  "reu = [CHR ''R'', CHR 0xC9, CHR ''U'']"

text \<open>One round of the loop over the parties of a lawsuit.\<close>

definition parte_is_reu :: "json \<Rightarrow> json \<Rightarrow> py_exn + bool" where
  "parte_is_reu nome_pessoa parte =
     py_bind (py_get parte ''Type'' (JStr [])) (\<lambda>tp.
     py_bind (str_upper tp) (\<lambda>papel.
     py_bind (py_get parte ''Name'' (JStr [])) (\<lambda>nm.
     py_bind (str_strip nm) (\<lambda>nm_stripped.
     py_bind (py_get parte ''PartyDetails'' (JObj [])) (\<lambda>details.
     py_bind (py_get details ''SpecificType'' (JStr [])) (\<lambda>sp.
     py_bind (str_upper sp) (\<lambda>espec.
       if papel = ''DEFENDANT'' \<or> papel = reu \<or> espec = reu
       then py_bind (str_strip nome_pessoa) (\<lambda>n. Inr (sublist (py_upper n) (py_upper nm_stripped)))
       else Inr False)))))))"

text \<open>The loop over the parties: it leaves at the first match.\<close>

fun partes_is_reu :: "json \<Rightarrow> json list \<Rightarrow> py_exn + bool" where
  "partes_is_reu nome_pessoa [] = Inr False"
| "partes_is_reu nome_pessoa (parte # partes) =
     (case parte_is_reu nome_pessoa parte of
        Inl e \<Rightarrow> Inl e
      | Inr m \<Rightarrow> if m then Inr True else partes_is_reu nome_pessoa partes)"

definition is_reu :: "json \<Rightarrow> json \<Rightarrow> py_exn + bool" where
  "is_reu nome_pessoa proc =
     py_bind (py_get proc ''CourtType'' JNull) (\<lambda>court.
       if py_eq court (JStr ''CRIMINAL'')
       then py_bind (py_get proc ''Parties'' (JArr [])) (\<lambda>ps.
            py_bind (py_iter ps) (\<lambda>partes. partes_is_reu nome_pessoa partes))
       else Inr False)"

text \<open>The loop over the lawsuits that collects \<open>processos_criminais\<close>.\<close>

fun filtrar_processos :: "json \<Rightarrow> json list \<Rightarrow> py_exn + json list" where
  "filtrar_processos nome_pessoa [] = Inr []"
| "filtrar_processos nome_pessoa (proc # lawsuits) =
     (case is_reu nome_pessoa proc of
        Inl e \<Rightarrow> Inl e
      | Inr m \<Rightarrow>
          (case filtrar_processos nome_pessoa lawsuits of
             Inl e \<Rightarrow> Inl e
           | Inr procs \<Rightarrow> Inr (if m then proc # procs else procs)))"

section \<open>The keyword analyzer\<close>

definition palavras_absolvicao :: "string list" where
  "palavras_absolvicao =
     [''absolv'', ''improcedent'', ''arquiv'', ''extin'' @ [CHR 0xE7],
      ''n'' @ [CHR 0xE3] @ ''o procede'', ''nao procede'', ''julgo improcedente'',
      ''absolvo'', ''n'' @ [CHR 0xE3] @ ''o h'' @ [CHR 0xE1] @ '' elementos'', ''nao ha elementos'',
      ''aus'' @ [CHR 0xEA] @ ''ncia de provas'', ''ausencia de provas'',
      ''insufici'' @ [CHR 0xEA] @ ''ncia de provas'', ''insuficiencia de provas'']"

definition tem_palavra :: "string \<Rightarrow> bool" where
  "tem_palavra texto_lower = list_ex (\<lambda>palavra. sublist palavra texto_lower) palavras_absolvicao"

definition tipo_absolvicao :: string where
  "tipo_absolvicao = ''Absolvi'' @ [CHR 0xE7, CHR 0xE3] @ ''o''"

definition tipo_improcedencia :: string where
  "tipo_improcedencia = ''Improced'' @ [CHR 0xEA] @ ''ncia''"

definition tipo_arquivamento :: string where
  "tipo_arquivamento = ''Arquivamento''"

definition tipo_extincao :: string where
  "tipo_extincao = ''Extin'' @ [CHR 0xE7, CHR 0xE3] @ ''o''"

definition tipo_outra :: string where
  "tipo_outra = ''Outra forma de absolvi'' @ [CHR 0xE7, CHR 0xE3] @ ''o''"

definition classify_absolution_type :: "string \<Rightarrow> string" where
  "classify_absolution_type texto =
     (let texto_lower = py_lower texto in
      if sublist ''absolv'' texto_lower then tipo_absolvicao
      else if list_ex (\<lambda>word. sublist word texto_lower)
                [''improcedent'', ''n'' @ [CHR 0xE3] @ ''o procede'', ''nao procede'']
           then tipo_improcedencia
      else if sublist ''arquiv'' texto_lower then tipo_arquivamento
      else if sublist (''extin'' @ [CHR 0xE7]) texto_lower then tipo_extincao
      else tipo_outra)"

text \<open>\<open>a or b\<close> on two values already read.\<close>

definition py_or :: "json \<Rightarrow> json \<Rightarrow> json" where
  "py_or a b = (if py_truthy a then a else b)"

definition numero_processo :: "json \<Rightarrow> py_exn + json" where
  "numero_processo proc =
     py_bind (py_get proc ''CaseNumber'' JNull) (\<lambda>a.
       if py_truthy a then Inr a else py_get proc ''Number'' (JStr []))"

text \<open>The list \<open>campos_decisao\<close> of one lawsuit: four fields, then the text of each decision.\<close>

fun decisoes_content :: "json list \<Rightarrow> py_exn + json list" where
  "decisoes_content [] = Inr []"
| "decisoes_content (decisao # decisoes) =
     (case py_get decisao ''DecisionContent'' (JStr []) of
        Inl e \<Rightarrow> Inl e
      | Inr c \<Rightarrow> (case decisoes_content decisoes of Inl e \<Rightarrow> Inl e | Inr cs \<Rightarrow> Inr (c # cs)))"

definition campos_decisao :: "json \<Rightarrow> py_exn + json list" where
  "campos_decisao proc =
     py_bind (py_get proc ''Decision'' (JStr [])) (\<lambda>f1.
     py_bind (py_get proc ''Content'' (JStr [])) (\<lambda>f2.
     py_bind (py_get proc ''Description'' (JStr [])) (\<lambda>f3.
     py_bind (py_get proc ''Summary'' (JStr [])) (\<lambda>f4.
     py_bind (py_get proc ''Decisions'' (JArr [])) (\<lambda>ds.
     py_bind (py_iter ds) (\<lambda>decisoes.
     py_bind (decisoes_content decisoes) (\<lambda>cs.
       Inr ([f1, f2, f3, f4] @ cs))))))))"

definition trecho :: "string \<Rightarrow> string" where
  "trecho campo = (if length campo > 200 then take 200 campo @ ''...'' else campo)"

definition mk_finding :: "json \<Rightarrow> json \<Rightarrow> string \<Rightarrow> py_exn + finding" where
  "mk_finding proc numero campo =
     py_bind (py_get proc ''CloseDate'' JNull) (\<lambda>d1.
     py_bind (if py_truthy d1 then Inr d1 else py_get proc ''LastMovementDate'' JNull) (\<lambda>d.
     py_bind (py_get proc ''CourtName'' JNull) (\<lambda>org.
     py_bind (py_get proc ''CourtDistrict'' JNull) (\<lambda>com.
       Inr \<lparr>processo = numero, tipo_decisao = classify_absolution_type campo, data = d,
            orgao = org, comarca = com, trecho_decisao = trecho campo\<rparr>))))"

text \<open>
  The test that ends the loop over the fields of a lawsuit: the list of findings is not
  empty and its last entry carries the number of this lawsuit.
\<close>

definition ultimo_e_deste :: "finding list \<Rightarrow> json \<Rightarrow> bool" where
  "ultimo_e_deste absolvicoes numero =
     (absolvicoes \<noteq> [] \<and> py_eq (processo (last absolvicoes)) numero)"

text \<open>
  The loop over \<open>campos_decisao\<close>. A field that is not a string, or is blank, is passed
  over. On any other field the keywords are tried, a finding is appended at the first one
  found, and then the test above decides whether the loop ends.
\<close>

fun scan_campos :: "json \<Rightarrow> json \<Rightarrow> json list \<Rightarrow> finding list \<Rightarrow> py_exn + finding list" where
  "scan_campos proc numero [] absolvicoes = Inr absolvicoes"
| "scan_campos proc numero (JStr campo # campos) absolvicoes =
     (if py_strip campo \<noteq> [] then
        (case (if tem_palavra (py_lower campo)
               then py_bind (mk_finding proc numero campo) (\<lambda>f. Inr (absolvicoes @ [f]))
               else Inr absolvicoes) of
           Inl e \<Rightarrow> Inl e
         | Inr absolvicoes' \<Rightarrow>
             if ultimo_e_deste absolvicoes' numero then Inr absolvicoes'
             else scan_campos proc numero campos absolvicoes')
      else scan_campos proc numero campos absolvicoes)"
| "scan_campos proc numero (campo # campos) absolvicoes = scan_campos proc numero campos absolvicoes"

text \<open>The loop over \<open>processos_criminais\<close>.\<close>

fun scan_processos :: "json list \<Rightarrow> finding list \<Rightarrow> py_exn + finding list" where
  "scan_processos [] absolvicoes = Inr absolvicoes"
| "scan_processos (proc # procs) absolvicoes =
     (case numero_processo proc of
        Inl e \<Rightarrow> Inl e
      | Inr numero \<Rightarrow>
          (case campos_decisao proc of
             Inl e \<Rightarrow> Inl e
           | Inr campos \<Rightarrow>
               (case scan_campos proc numero campos absolvicoes of
                  Inl e \<Rightarrow> Inl e
                | Inr absolvicoes' \<Rightarrow> scan_processos procs absolvicoes')))"

definition nao_encontrado :: string where
  "nao_encontrado = ''N'' @ [CHR 0xE3] @ ''o encontrado''"

definition nome_nao_informado :: string where
  "nome_nao_informado = ''Nome n'' @ [CHR 0xE3] @ ''o informado''"

definition dados_nao_encontrados :: "string \<Rightarrow> kw_result" where
  "dados_nao_encontrados cpf_raw =
     \<lparr>cpf = cpf_raw, nome = JStr nao_encontrado, foi_absolvido = JNull,
      total_processos_criminais = 0, status = DadosNaoEncontrados,
      total_absolvicoes = 0, detalhes_absolvicoes = []\<rparr>"

text \<open>
  What the head of both analyzers reads from the payload: \<open>None\<close> when the payload has no
  result set, otherwise the name and the lawsuits of the first entry.
\<close>

definition ler_pessoa :: "json \<Rightarrow> py_exn + (json \<times> json list) option" where
  "ler_pessoa bdc_data =
     py_bind (py_in ''Result'' bdc_data) (\<lambda>has.
       if \<not> has then Inr None
       else
         py_bind (py_item bdc_data ''Result'') (\<lambda>res.
           if \<not> py_truthy res then Inr None
           else
             py_bind (py_item0 res) (\<lambda>pessoa.
             py_bind (py_get pessoa ''BasicData'' (JObj [])) (\<lambda>basic.
             py_bind (py_get basic ''Name'' (JStr nome_nao_informado)) (\<lambda>nm.
             py_bind (py_get pessoa ''Processes'' (JObj [])) (\<lambda>processos.
             py_bind (py_get processos ''Lawsuits'' (JArr [])) (\<lambda>ls.
             py_bind (py_iter ls) (\<lambda>lawsuits.
               Inr (Some (nm, lawsuits))))))))))"

text \<open>The body of the \<open>try\<close> of \<open>analyze_absolution\<close>.\<close>

definition analyze_body :: "json \<Rightarrow> string \<Rightarrow> py_exn + kw_result" where
  "analyze_body bdc_data cpf_raw =
     py_bind (ler_pessoa bdc_data) (\<lambda>p.
       case p of
         None \<Rightarrow> Inr (dados_nao_encontrados cpf_raw)
       | Some (nm, lawsuits) \<Rightarrow>
           py_bind (filtrar_processos nm lawsuits) (\<lambda>processos_criminais.
           py_bind (scan_processos processos_criminais []) (\<lambda>absolvicoes.
             Inr \<lparr>cpf = cpf_raw, nome = nm,
                  foi_absolvido = JBool (length absolvicoes > 0),
                  total_processos_criminais = length processos_criminais,
                  status = Sucesso,
                  total_absolvicoes = length absolvicoes,
                  detalhes_absolvicoes = absolvicoes\<rparr>)))"

definition erro_processamento :: "string \<Rightarrow> py_exn \<Rightarrow> kw_result" where
  "erro_processamento cpf_raw e =
     \<lparr>cpf = cpf_raw, nome = JStr ''Erro no processamento'', foi_absolvido = JNull,
      total_processos_criminais = 0, status = Erro e,
      total_absolvicoes = 0, detalhes_absolvicoes = []\<rparr>"

definition analyze_absolution :: "json \<Rightarrow> string \<Rightarrow> kw_result" where
  "analyze_absolution bdc_data cpf_raw =
     (case analyze_body bdc_data cpf_raw of
        Inl e \<Rightarrow> erro_processamento cpf_raw e
      | Inr r \<Rightarrow> r)"

section \<open>The analyzer with the reasoning service\<close>

text \<open>
  Two collaborators. \<open>str\<close> is Python's \<open>str()\<close>, which the f-strings of the source
  apply to an exception (\<open>Inl\<close>) or to a value (\<open>Inr\<close>); the analyzer takes it as a
  parameter. \<open>service\<close> is the reasoning service together with \<open>json.loads\<close> of its
  answer: a request holds the name and the identifier of the person and the consolidated
  text; the reply is the decoded body, or an exception (of the call or of the decoder) with
  its text.
\<close>

type_synonym py_str = "py_exn + json \<Rightarrow> string"

type_synonym llm_request = "json \<times> string \<times> string"

datatype llm_reply = LlmFails string | LlmJson json

definition nenhuma_decisao :: string where
  "nenhuma_decisao =
     ''Nenhuma decis'' @ [CHR 0xE3] @ ''o dispon'' @ [CHR 0xED] @ ''vel para an'' @ [CHR 0xE1] @ ''lise''"

definition erro_analise_ia :: string where
  "erro_analise_ia = ''Erro na an'' @ [CHR 0xE1] @ ''lise IA: ''"

text \<open>\<open>analyze_with_llm\<close> returns its dict and the requests it sent to the service.\<close>

definition analyze_with_llm ::
  "(llm_request \<Rightarrow> llm_reply) \<Rightarrow> string \<Rightarrow> json \<times> string \<Rightarrow> json \<times> llm_request list" where
  "analyze_with_llm service texto_decisoes dados_pessoa =
     (if py_strip texto_decisoes = []
      then (JObj [(''foi_absolvido'', JNull), (''confianca_analise'', JNum 0),
                  (''justificativa'', JStr nenhuma_decisao),
                  (''detalhes_ia'', JStr ''Sem dados suficientes'')], [])
      else
        (let req = (fst dados_pessoa, snd dados_pessoa, texto_decisoes) in
         case service req of
           LlmFails msg \<Rightarrow>
             (JObj [(''foi_absolvido'', JNull), (''confianca_analise'', JNum 0),
                    (''justificativa'', JStr (erro_analise_ia @ msg)),
                    (''detalhes_ia'', JStr ''Falha no processamento'')], [req])
         | LlmJson resultado_ia \<Rightarrow> (resultado_ia, [req])))"

text \<open>The texts of the decisions of one lawsuit, numbered from 1.\<close>

fun textos_decisoes :: "py_str \<Rightarrow> nat \<Rightarrow> json list \<Rightarrow> py_exn + string list" where
  "textos_decisoes str i [] = Inr []"
| "textos_decisoes str i (decisao # decisoes) =
     (case py_get decisao ''DecisionContent'' (JStr []) of
        Inl e \<Rightarrow> Inl e
      | Inr conteudo_decisao \<Rightarrow>
          (case py_get decisao ''DecisionDate'' (JStr []) of
             Inl e \<Rightarrow> Inl e
           | Inr data_decisao \<Rightarrow>
               (case textos_decisoes str (Suc i) decisoes of
                  Inl e \<Rightarrow> Inl e
                | Inr ts \<Rightarrow>
                    Inr (if py_truthy conteudo_decisao
                         then (''Decis'' @ [CHR 0xE3] @ ''o '' @ str (Inr (JNum (int i + 1))) @ '' (''
                               @ str (Inr data_decisao) @ ''): '' @ str (Inr conteudo_decisao)) # ts
                         else ts))))"

definition campo_rotulado :: "py_str \<Rightarrow> string \<Rightarrow> json \<Rightarrow> string list" where
  "campo_rotulado str rotulo v = (if py_truthy v then [rotulo @ str (Inr v)] else [])"

text \<open>The block of one lawsuit, if it has any text.\<close>

definition texto_processo :: "py_str \<Rightarrow> json \<Rightarrow> py_exn + string option" where
  "texto_processo str proc =
     py_bind (numero_processo proc) (\<lambda>numero.
     py_bind (py_get proc ''CourtName'' (JStr [])) (\<lambda>tribunal.
     py_bind (py_get proc ''Content'' JNull) (\<lambda>content.
     py_bind (py_get proc ''Decision'' JNull) (\<lambda>decision.
     py_bind (py_get proc ''Description'' JNull) (\<lambda>description.
     py_bind (py_get proc ''Decisions'' (JArr [])) (\<lambda>ds.
     py_bind (py_iter ds) (\<lambda>decisoes.
     py_bind (textos_decisoes str 0 decisoes) (\<lambda>tds.
       let textos_processo =
             campo_rotulado str (''Conte'' @ [CHR 0xFA] @ ''do: '') content
             @ campo_rotulado str (''Decis'' @ [CHR 0xE3] @ ''o: '') decision
             @ campo_rotulado str (''Descri'' @ [CHR 0xE7, CHR 0xE3] @ ''o: '') description
             @ tds
       in Inr (if textos_processo \<noteq> []
               then Some ([CHR 0x0A] @ ''PROCESSO '' @ str (Inr numero) @ '' - '' @ str (Inr tribunal)
                          @ '':'' @ [CHR 0x0A] @ py_join [CHR 0x0A] textos_processo
                          @ [CHR 0x0A] @ ''---'' @ [CHR 0x0A])
               else None)))))))))"

text \<open>The loop over the lawsuits: the filter, and the block of each lawsuit that passes it.\<close>

fun coletar_processos :: "py_str \<Rightarrow> json \<Rightarrow> json list \<Rightarrow> py_exn + (json list \<times> string list)" where
  "coletar_processos str nome_pessoa [] = Inr ([], [])"
| "coletar_processos str nome_pessoa (proc # lawsuits) =
     (case is_reu nome_pessoa proc of
        Inl e \<Rightarrow> Inl e
      | Inr m \<Rightarrow>
          (case (if m then texto_processo str proc else Inr None) of
             Inl e \<Rightarrow> Inl e
           | Inr bloco \<Rightarrow>
               (case coletar_processos str nome_pessoa lawsuits of
                  Inl e \<Rightarrow> Inl e
                | Inr (procs, textos) \<Rightarrow>
                    Inr (if m then proc # procs else procs,
                         case bloco of None \<Rightarrow> textos | Some t \<Rightarrow> t # textos))))"

text \<open>
  What \<open>analyze_absolution_with_llm\<close> has in hand when it turns to the service: \<open>None\<close>
  when the payload has no result set, otherwise the name, the lawsuits that passed the
  filter and the consolidated text.
\<close>

definition preparar_llm :: "py_str \<Rightarrow> json \<Rightarrow> py_exn + (json \<times> json list \<times> string) option" where
  "preparar_llm str bdc_data =
     py_bind (ler_pessoa bdc_data) (\<lambda>p.
       case p of
         None \<Rightarrow> Inr None
       | Some (nm, lawsuits) \<Rightarrow>
           py_bind (coletar_processos str nm lawsuits) (\<lambda>(procs, textos).
             Inr (Some (nm, procs, py_join [CHR 0x0A] textos))))"

definition dados_nao_encontrados_llm :: "string \<Rightarrow> llm_result" where
  "dados_nao_encontrados_llm cpf_raw =
     \<lparr>cpf = cpf_raw, nome = JStr nao_encontrado, foi_absolvido = JNull,
      total_processos_criminais = 0, status = DadosNaoEncontrados,
      confianca_analise = JNum 0,
      justificativa = JStr (''Dados n'' @ [CHR 0xE3] @ ''o encontrados na base''),
      detalhes_ia = JStr (''CPF n'' @ [CHR 0xE3] @ ''o localizado'')\<rparr>"

definition erro_processamento_llm :: "py_str \<Rightarrow> string \<Rightarrow> py_exn \<Rightarrow> llm_result" where
  "erro_processamento_llm str cpf_raw e =
     \<lparr>cpf = cpf_raw, nome = JStr ''Erro no processamento'', foi_absolvido = JNull,
      total_processos_criminais = 0, status = Erro e,
      confianca_analise = JNum 0,
      justificativa = JStr (''Erro durante processamento: '' @ str (Inl e)),
      detalhes_ia = JStr (''Falha na an'' @ [CHR 0xE1] @ ''lise'')\<rparr>"

text \<open>The result dict built from the answer of \<open>analyze_with_llm\<close>.\<close>

definition montar_resultado :: "string \<Rightarrow> json \<Rightarrow> nat \<Rightarrow> json \<Rightarrow> py_exn + llm_result" where
  "montar_resultado cpf_raw nm total_processos resultado_ia =
     py_bind (py_get resultado_ia ''foi_absolvido'' JNull) (\<lambda>fa.
     py_bind (py_get resultado_ia ''confianca_analise'' (JNum 0)) (\<lambda>ca.
     py_bind (py_get resultado_ia ''justificativa'' (JStr [])) (\<lambda>ju.
     py_bind (py_get resultado_ia ''detalhes_ia'' (JStr [])) (\<lambda>de.
       Inr \<lparr>cpf = cpf_raw, nome = nm, foi_absolvido = fa,
            total_processos_criminais = total_processos, status = Sucesso,
            confianca_analise = ca, justificativa = ju, detalhes_ia = de\<rparr>))))"

text \<open>\<open>analyze_absolution_with_llm\<close> returns its result and the requests sent to the service.\<close>

definition analyze_absolution_with_llm ::
  "py_str \<Rightarrow> (llm_request \<Rightarrow> llm_reply) \<Rightarrow> json \<Rightarrow> string \<Rightarrow> llm_result \<times> llm_request list" where
  "analyze_absolution_with_llm str service bdc_data cpf_raw =
     (case preparar_llm str bdc_data of
        Inl e \<Rightarrow> (erro_processamento_llm str cpf_raw e, [])
      | Inr None \<Rightarrow> (dados_nao_encontrados_llm cpf_raw, [])
      | Inr (Some (nm, procs, texto_para_ia)) \<Rightarrow>
          (let (resultado_ia, reqs) = analyze_with_llm service texto_para_ia (nm, cpf_raw) in
           case montar_resultado cpf_raw nm (length procs) resultado_ia of
             Inl e \<Rightarrow> (erro_processamento_llm str cpf_raw e, reqs)
           | Inr r \<Rightarrow> (r, reqs)))"

section \<open>Summary statistics\<close>









section \<open>The batch\<close>

text \<open>
  \<open>process_batch\<close> submits one fetch per identifier to the pool and then, on the calling
  thread, takes the futures as they complete. The two analyzers differ in the classifier
  they call and in the two error dicts they build, which are the first three parameters of
  the loop below. A progress callback is a collaborator: all the batch sees of it is whether
  a call returns or raises, which may depend on every call made to it so far; it is given
  as the function from the calls so far, the last one being the current call, to the
  exception raised, if any. The state of the loop is the list \<open>results\<close>, with two
  records kept beside it: the calls made to the callback and the identifiers handed to the
  classifier. The \<open>print\<close> calls are left out.
\<close>

type_synonym 'r progress_callback = "(nat \<times> nat \<times> 'r) list \<Rightarrow> py_exn option"

record 'r batch_state =
  results :: "'r list"
  progress_calls :: "(nat \<times> nat \<times> 'r) list"
  classified :: "string list"

text \<open>
  The statements of the \<open>try\<close> up to the one that computes \<open>result\<close>; the flag tells
  whether the classifier was called.
\<close>

definition unit_result ::
  "(json \<Rightarrow> string \<Rightarrow> 'r) \<Rightarrow> (string \<Rightarrow> json \<Rightarrow> 'r) \<Rightarrow> string \<Rightarrow> json \<Rightarrow> py_exn + ('r \<times> bool)" where
  "unit_result analyze erro_api cpf_raw bdc_data =
     py_bind (py_in ''error'' bdc_data) (\<lambda>has.
       if has then py_bind (py_item bdc_data ''error'') (\<lambda>v. Inr (erro_api cpf_raw v, False))
       else Inr (analyze bdc_data cpf_raw, True))"

text \<open>One round of the loop, for the \<open>i\<close>-th future to complete.\<close>

definition batch_step ::
  "(json \<Rightarrow> string \<Rightarrow> 'r) \<Rightarrow> (string \<Rightarrow> json \<Rightarrow> 'r) \<Rightarrow> (string \<Rightarrow> py_exn \<Rightarrow> 'r) \<Rightarrow>
   'r progress_callback option \<Rightarrow> nat \<Rightarrow> nat \<Rightarrow> string \<times> json \<Rightarrow> 'r batch_state \<Rightarrow> 'r batch_state" where
  "batch_step analyze erro_api excecao callback tot i unit st =
     (case unit_result analyze erro_api (fst unit) (snd unit) of
        Inl exc \<Rightarrow> st\<lparr>results := results st @ [excecao (fst unit) exc]\<rparr>
      | Inr (r, called) \<Rightarrow>
          (let st1 = st\<lparr>results := results st @ [r],
                        classified := (if called then classified st @ [fst unit] else classified st)\<rparr>
           in case callback of
                None \<Rightarrow> st1
              | Some f \<Rightarrow>
                  (let st2 = st1\<lparr>progress_calls := progress_calls st1 @ [(i, tot, r)]\<rparr>
                   in case f (progress_calls st2) of
                        None \<Rightarrow> st2
                      | Some exc \<Rightarrow> st2\<lparr>results := results st2 @ [excecao (fst unit) exc]\<rparr>)))"

fun batch_loop ::
  "(json \<Rightarrow> string \<Rightarrow> 'r) \<Rightarrow> (string \<Rightarrow> json \<Rightarrow> 'r) \<Rightarrow> (string \<Rightarrow> py_exn \<Rightarrow> 'r) \<Rightarrow>
   'r progress_callback option \<Rightarrow> nat \<Rightarrow> nat \<Rightarrow> (string \<times> json) list \<Rightarrow> 'r batch_state \<Rightarrow> 'r batch_state" where
  "batch_loop analyze erro_api excecao callback tot i [] st = st"
| "batch_loop analyze erro_api excecao callback tot i (unit # units) st =
     batch_loop analyze erro_api excecao callback tot (Suc i) units
       (batch_step analyze erro_api excecao callback tot i unit st)"

text \<open>
  \<open>ordem\<close> is the order in which the futures complete, as positions in \<open>cpfs\<close>: a
  permutation of \<open>[0..<length cpfs]\<close>, since \<open>as_completed\<close> yields every future once.
\<close>

definition completed_units :: "(string \<Rightarrow> http_reply) \<Rightarrow> nat list \<Rightarrow> string list \<Rightarrow> (string \<times> json) list" where
  "completed_units provider ordem cpfs =
     map (\<lambda>k. (cpfs ! k, fst (fetch_single_cpf_data provider (cpfs ! k)))) ordem"

definition run_batch ::
  "(json \<Rightarrow> string \<Rightarrow> 'r) \<Rightarrow> (string \<Rightarrow> json \<Rightarrow> 'r) \<Rightarrow> (string \<Rightarrow> py_exn \<Rightarrow> 'r) \<Rightarrow>
   (string \<Rightarrow> http_reply) \<Rightarrow> nat list \<Rightarrow> string list \<Rightarrow> 'r progress_callback option \<Rightarrow> 'r batch_state" where
  "run_batch analyze erro_api excecao provider ordem cpfs callback =
     batch_loop analyze erro_api excecao callback (length cpfs) 1
       (completed_units provider ordem cpfs)
       \<lparr>results = [], progress_calls = [], classified = []\<rparr>"

subsection \<open>The keyword analyzer's batch\<close>

definition erro_api :: "string \<Rightarrow> json \<Rightarrow> kw_result" where
  "erro_api cpf_raw v =
     \<lparr>cpf = cpf_raw, nome = JStr ''Erro na consulta'', foi_absolvido = JNull,
      total_processos_criminais = 0, status = ErroApi v,
      total_absolvicoes = 0, detalhes_absolvicoes = []\<rparr>"

definition excecao :: "string \<Rightarrow> py_exn \<Rightarrow> kw_result" where
  "excecao cpf_raw exc =
     \<lparr>cpf = cpf_raw, nome = JStr ''Erro na consulta'', foi_absolvido = JNull,
      total_processos_criminais = 0, status = Excecao exc,
      total_absolvicoes = 0, detalhes_absolvicoes = []\<rparr>"

definition process_batch ::
  "(string \<Rightarrow> http_reply) \<Rightarrow> nat list \<Rightarrow> string list \<Rightarrow> kw_result progress_callback option \<Rightarrow>
   kw_result batch_state" where
  "process_batch provider ordem cpfs callback =
     run_batch analyze_absolution erro_api excecao provider ordem cpfs callback"

subsection \<open>The batch with the reasoning service\<close>

definition erro_api_llm :: "py_str \<Rightarrow> string \<Rightarrow> json \<Rightarrow> llm_result" where
  "erro_api_llm str cpf_raw v =
     \<lparr>cpf = cpf_raw, nome = JStr ''Erro na consulta'', foi_absolvido = JNull,
      total_processos_criminais = 0, status = ErroApi v,
      confianca_analise = JNum 0,
      justificativa = JStr (''Erro na API: '' @ str (Inr v)),
      detalhes_ia = JStr ''Falha na consulta de dados''\<rparr>"

definition excecao_llm :: "py_str \<Rightarrow> string \<Rightarrow> py_exn \<Rightarrow> llm_result" where
  "excecao_llm str cpf_raw exc =
     \<lparr>cpf = cpf_raw, nome = JStr ''Erro na consulta'', foi_absolvido = JNull,
      total_processos_criminais = 0, status = Excecao exc,
      confianca_analise = JNum 0,
      justificativa = JStr (''Exce'' @ [CHR 0xE7, CHR 0xE3] @ ''o durante processamento: '' @ str (Inl exc)),
      detalhes_ia = JStr ''Falha no processamento''\<rparr>"

definition process_batch_llm ::
  "py_str \<Rightarrow> (llm_request \<Rightarrow> llm_reply) \<Rightarrow> (string \<Rightarrow> http_reply) \<Rightarrow> nat list \<Rightarrow> string list \<Rightarrow>
   llm_result progress_callback option \<Rightarrow> llm_result batch_state" where
  "process_batch_llm str service provider ordem cpfs callback =
     run_batch (\<lambda>bdc_data cpf_raw. fst (analyze_absolution_with_llm str service bdc_data cpf_raw))
       (erro_api_llm str) (excecao_llm str) provider ordem cpfs callback"

section \<open>The defendant filter as the specification words it\<close>

text \<open>
  The condition of the specification, written on its own and not taken from the code: a
  lawsuit counts when its court type is CRIMINAL and some party has a role label that
  uppercases to DEFENDANT or to the Portuguese word for defendant, or a detailed-role subtype
  that uppercases to that word, and a recorded name that, trimmed and uppercased, contains
  the person's trimmed, uppercased name. A field that is absent reads as the empty string;
  a field that is not a string satisfies nothing.
\<close>

definition campo_texto :: "json \<Rightarrow> string \<Rightarrow> string option" where
  "campo_texto v k =
     (case v of
        JObj kvs \<Rightarrow> (case dict_get kvs k (JStr []) of JStr s \<Rightarrow> Some s | _ \<Rightarrow> None)
      | _ \<Rightarrow> None)"

definition subtipo :: "json \<Rightarrow> string option" where
  "subtipo parte =
     (case parte of
        JObj kvs \<Rightarrow> campo_texto (dict_get kvs ''PartyDetails'' (JObj [])) ''SpecificType''
      | _ \<Rightarrow> None)"

definition uppercases_to :: "string option \<Rightarrow> string \<Rightarrow> bool" where
  "uppercases_to v s = (case v of None \<Rightarrow> False | Some t \<Rightarrow> py_upper t = s)"

definition parte_satisfaz :: "string \<Rightarrow> json \<Rightarrow> bool" where
  "parte_satisfaz nome_pessoa parte =
     ((uppercases_to (campo_texto parte ''Type'') ''DEFENDANT''
       \<or> uppercases_to (campo_texto parte ''Type'') reu
       \<or> uppercases_to (subtipo parte) reu)
      \<and> (case campo_texto parte ''Name'' of
            None \<Rightarrow> False
          | Some n \<Rightarrow> sublist (py_upper (py_strip nome_pessoa)) (py_upper (py_strip n))))"

definition spec_is_defendant :: "string \<Rightarrow> json \<Rightarrow> bool" where
  "spec_is_defendant nome_pessoa proc =
     (case proc of
        JObj kvs \<Rightarrow>
          dict_get kvs ''CourtType'' JNull = JStr ''CRIMINAL''
          \<and> (case dict_get kvs ''Parties'' (JArr []) of
                JArr partes \<Rightarrow> list_ex (parte_satisfaz nome_pessoa) partes
              | _ \<Rightarrow> False)
      | _ \<Rightarrow> False)"

section \<open>Predicates of the statements\<close>


text \<open>A callback that never raises, and no callback at all.\<close>

definition callback_returns :: "'r progress_callback option \<Rightarrow> bool" where
  "callback_returns callback =
     (case callback of None \<Rightarrow> True | Some f \<Rightarrow> (\<forall>calls. f calls = None))"

text \<open>
  The calls one unit adds to the progress callback's record when a callback is given: none
  when computing its result raised, one otherwise, numbered with the unit's rank.
\<close>

definition unit_calls ::
  "(json \<Rightarrow> string \<Rightarrow> 'r) \<Rightarrow> (string \<Rightarrow> json \<Rightarrow> 'r) \<Rightarrow> nat \<Rightarrow> nat \<times> string \<times> json \<Rightarrow> (nat \<times> nat \<times> 'r) list" where
  "unit_calls analyze ea tot ku =
     (case unit_result analyze ea (fst (snd ku)) (snd (snd ku)) of
        Inl e \<Rightarrow> []
      | Inr p \<Rightarrow> [(fst ku, tot, fst p)])"

text \<open>A field in which the keyword scan finds a keyword: a string that is not blank and holds one.\<close>

definition campo_com_palavra :: "json \<Rightarrow> bool" where
  "campo_com_palavra v =
     (case v of JStr s \<Rightarrow> py_strip s \<noteq> [] \<and> tem_palavra (py_lower s) | _ \<Rightarrow> False)"

section \<open>Example payloads\<close>

text \<open>
  Payloads of the provider for one person, Joao Silva, who is a defendant in each lawsuit
  below; answers of the reasoning service; result lists. \<open>str_exemplo\<close> is \<open>str()\<close> on
  the values these examples format, which are strings.
\<close>

definition payload_de :: "json \<Rightarrow> json list \<Rightarrow> json" where
  "payload_de nm lawsuits =
     JObj [(''Result'', JArr [JObj [(''BasicData'', JObj [(''Name'', nm)]),
                                    (''Processes'', JObj [(''Lawsuits'', JArr lawsuits)])]])]"

definition parte_joao :: json where
  "parte_joao = JObj [(''Type'', JStr ''DEFENDANT''), (''Name'', JStr ''JOAO SILVA'')]"

definition processo_civel :: json where
  "processo_civel =
     JObj [(''CourtType'', JStr ''CIVIL''), (''Number'', JStr ''7''), (''Parties'', JArr [parte_joao]),
           (''Decision'', JStr ''Julgo improcedente o pedido'')]"

definition processo_a :: json where
  "processo_a =
     JObj [(''CourtType'', JStr ''CRIMINAL''), (''Number'', JStr ''1''), (''Parties'', JArr [parte_joao]),
           (''Decision'', JStr ''O reu foi absolvido'')]"

definition processo_b :: json where
  "processo_b =
     JObj [(''CourtType'', JStr ''CRIMINAL''), (''Number'', JStr ''1''), (''Parties'', JArr [parte_joao]),
           (''Decision'', JStr ''Reu condenado''),
           (''Content'', JStr ''Recurso provido: reu absolvido'')]"

definition processo_condenado :: json where
  "processo_condenado =
     JObj [(''CourtType'', JStr ''CRIMINAL''), (''Number'', JStr ''3''), (''Parties'', JArr [parte_joao]),
           (''Decision'', JStr ''Reu condenado'')]"

definition processo_sem_texto :: json where
  "processo_sem_texto =
     JObj [(''CourtType'', JStr ''CRIMINAL''), (''Number'', JStr ''4''), (''Parties'', JArr [parte_joao])]"

definition processo_detalhes_nulos :: json where
  "processo_detalhes_nulos =
     JObj [(''CourtType'', JStr ''CRIMINAL''), (''Number'', JStr ''5''),
           (''Parties'', JArr [JObj [(''Type'', JStr ''DEFENDANT''), (''Name'', JStr ''JOAO SILVA''),
                                     (''PartyDetails'', JNull)]])]"

definition processo_decisoes_nulas :: json where
  "processo_decisoes_nulas =
     JObj [(''CourtType'', JStr ''CRIMINAL''), (''Number'', JStr ''6''), (''Parties'', JArr [parte_joao]),
           (''Decision'', JStr ''O reu foi absolvido''), (''Decisions'', JNull)]"

definition str_exemplo :: py_str where
  "str_exemplo x = (case x of Inr (JStr s) \<Rightarrow> s | Inl (Raised msg) \<Rightarrow> msg | _ \<Rightarrow> [])"

definition narrativa_a :: string where
  "narrativa_a =
     [CHR 0x0A] @ ''PROCESSO 1 - :'' @ [CHR 0x0A] @ ''Decis'' @ [CHR 0xE3] @ ''o: O reu foi absolvido''
     @ [CHR 0x0A] @ ''---'' @ [CHR 0x0A]"

definition resposta_fora_do_contrato :: "(string \<times> json) list" where
  "resposta_fora_do_contrato = [(''foi_absolvido'', JStr ''talvez''), (''confianca_analise'', JNum 250)]"





section \<open>Python values: elimination rules\<close>

lemma py_bindE:
  assumes "py_bind m f = Inr y"
  obtains x where "m = Inr x" "f x = Inr y"
  using assms by (cases m) (simp_all add: py_bind_def)

lemma py_get_InrD: "py_get v k d = Inr x \<Longrightarrow> \<exists>kvs. v = JObj kvs \<and> dict_get kvs k d = x"
  by (cases v) auto

lemma str_upper_InrD: "str_upper v = Inr s \<Longrightarrow> \<exists>t. v = JStr t \<and> s = py_upper t"
  by (cases v) auto

lemma str_strip_InrD: "str_strip v = Inr s \<Longrightarrow> \<exists>t. v = JStr t \<and> s = py_strip t"
  by (cases v) auto

lemma py_eq_JStr [simp]: "py_eq v (JStr s) = (v = JStr s)"
  by (cases v) auto

section \<open>Properties of the batch loop\<close>

lemma batch_step_results_prefix:
  "\<exists>zs. results (batch_step analyze ea ex callback tot i u st) = results st @ zs"
  by (auto simp: batch_step_def Let_def split: sum.splits option.splits prod.splits)

lemma batch_loop_results_prefix:
  "\<exists>zs. results (batch_loop analyze ea ex callback tot i units st) = results st @ zs"
proof (induction units arbitrary: i st)
  case Nil
  then show ?case by simp
next
  case (Cons u units)
  obtain zs1 where 1: "results (batch_step analyze ea ex callback tot i u st) = results st @ zs1"
    using batch_step_results_prefix by blast
  obtain zs2 where 2: "results (batch_loop analyze ea ex callback tot (Suc i) units
       (batch_step analyze ea ex callback tot i u st)) = results (batch_step analyze ea ex callback tot i u st) @ zs2"
    using Cons.IH by blast
  show ?case using 1 2 by simp
qed

lemma batch_step_result_in:
  "unit_result analyze ea (fst u) (snd u) = Inr (r, b) \<Longrightarrow>
   r \<in> set (results (batch_step analyze ea ex callback tot i u st))"
  by (auto simp: batch_step_def Let_def split: option.splits)

lemma batch_loop_result_in:
  "u \<in> set units \<Longrightarrow> unit_result analyze ea (fst u) (snd u) = Inr (r, b) \<Longrightarrow>
   r \<in> set (results (batch_loop analyze ea ex callback tot i units st))"
proof (induction units arbitrary: i st)
  case Nil
  then show ?case by simp
next
  case (Cons v units)
  show ?case
  proof (cases "u = v")
    case True
    have "r \<in> set (results (batch_step analyze ea ex callback tot i v st))"
      using Cons.prems(2) True batch_step_result_in by metis
    moreover obtain zs where "results (batch_loop analyze ea ex callback tot (Suc i) units
       (batch_step analyze ea ex callback tot i v st)) = results (batch_step analyze ea ex callback tot i v st) @ zs"
      using batch_loop_results_prefix by blast
    ultimately show ?thesis by simp
  next
    case False
    then have "u \<in> set units" using Cons.prems(1) by simp
    then show ?thesis using Cons.IH Cons.prems(2) by simp
  qed
qed

lemma batch_step_classified:
  "x \<in> set (classified (batch_step analyze ea ex callback tot i u st)) \<Longrightarrow>
   x \<in> set (classified st) \<or> (fst u = x \<and> (\<exists>r. unit_result analyze ea (fst u) (snd u) = Inr (r, True)))"
  by (auto simp: batch_step_def Let_def split: sum.splits option.splits prod.splits if_splits)

lemma batch_loop_classified:
  "x \<in> set (classified (batch_loop analyze ea ex callback tot i units st)) \<Longrightarrow>
   x \<in> set (classified st) \<or>
   (\<exists>u \<in> set units. fst u = x \<and> (\<exists>r. unit_result analyze ea (fst u) (snd u) = Inr (r, True)))"
proof (induction units arbitrary: i st)
  case Nil
  then show ?case by simp
next
  case (Cons v units)
  from Cons.prems have "x \<in> set (classified (batch_loop analyze ea ex callback tot (Suc i) units
       (batch_step analyze ea ex callback tot i v st)))" by simp
  from Cons.IH[OF this] show ?case
    using batch_step_classified[of x analyze ea ex callback tot i v st] by auto
qed

lemma fetch_invalid:
  "length (filter is_digit c) \<noteq> 11 \<Longrightarrow>
   fetch_single_cpf_data provider c = (JObj [(''cpf'', JStr c), (''error'', JStr cpf_invalido)], [])"
  by (simp add: fetch_single_cpf_data_def Let_def)

lemma unit_result_error_dict:
  "unit_result analyze ea c (JObj [(''cpf'', v), (''error'', w)]) = Inr (ea c w, False)"
  by (simp add: unit_result_def py_bind_def)

lemma ordem_set: "mset ordem = mset [0..<n] \<Longrightarrow> set ordem = {0..<n}"
  by (metis mset_eq_setD set_upt)

section \<open>Invalid identifiers\<close>

text \<open>
  Claim C6. An identifier that does not reduce to exactly 11 digits once every non-digit
  is stripped makes \<open>fetch_single_cpf_data\<close> return the invalid-identifier error dict
  with no request issued; and in a batch that holds it, whatever the order of completion
  and the callback, the results hold for it the api-error result with unknown outcome and
  zero counts, and the classifier is not called on it.
\<close>

theorem invalid_cpf_is_api_error:
  assumes invalid: "length (filter is_digit c) \<noteq> 11"
  shows "fetch_single_cpf_data provider c = (JObj [(''cpf'', JStr c), (''error'', JStr cpf_invalido)], [])
     \<and> (mset ordem = mset [0..<length cpfs] \<longrightarrow> c \<in> set cpfs \<longrightarrow>
          \<lparr>cpf = c, nome = JStr ''Erro na consulta'', foi_absolvido = JNull,
            total_processos_criminais = 0, status = ErroApi (JStr cpf_invalido),
            total_absolvicoes = 0, detalhes_absolvicoes = []\<rparr>
            \<in> set (results (process_batch provider ordem cpfs callback))
          \<and> c \<notin> set (classified (process_batch provider ordem cpfs callback)))"
proof (intro conjI impI)
  show f: "fetch_single_cpf_data provider c = (JObj [(''cpf'', JStr c), (''error'', JStr cpf_invalido)], [])"
    using invalid by (rule fetch_invalid)
  assume perm: "mset ordem = mset [0..<length cpfs]" and mem: "c \<in> set cpfs"
  let ?units = "completed_units provider ordem cpfs"
  have ur: "unit_result analyze_absolution erro_api c (fst (fetch_single_cpf_data provider c))
              = Inr (erro_api c (JStr cpf_invalido), False)"
    by (simp add: f unit_result_error_dict)
  from mem obtain k where k: "k < length cpfs" "cpfs ! k = c"
    by (auto simp: in_set_conv_nth)
  then have "k \<in> set ordem" using ordem_set[OF perm] by simp
  then have "(c, fst (fetch_single_cpf_data provider c)) \<in> set ?units"
    using k(2) by (force simp: completed_units_def)
  then have "erro_api c (JStr cpf_invalido) \<in> set (results (process_batch provider ordem cpfs callback))"
    unfolding process_batch_def run_batch_def
    using batch_loop_result_in[of "(c, fst (fetch_single_cpf_data provider c))" ?units] ur by simp
  then show "\<lparr>cpf = c, nome = JStr ''Erro na consulta'', foi_absolvido = JNull,
            total_processos_criminais = 0, status = ErroApi (JStr cpf_invalido),
            total_absolvicoes = 0, detalhes_absolvicoes = []\<rparr>
            \<in> set (results (process_batch provider ordem cpfs callback))"
    by (simp add: erro_api_def)
  show "c \<notin> set (classified (process_batch provider ordem cpfs callback))"
  proof
    assume a: "c \<in> set (classified (process_batch provider ordem cpfs callback))"
    have "c \<in> set (classified \<lparr>results = ([] :: kw_result list), progress_calls = [], classified = []\<rparr>) \<or>
          (\<exists>u \<in> set ?units. fst u = c \<and>
             (\<exists>r. unit_result analyze_absolution erro_api (fst u) (snd u) = Inr (r, True)))"
      using a unfolding process_batch_def run_batch_def by (rule batch_loop_classified)
    then obtain u r where u: "u \<in> set ?units" "fst u = c"
        "unit_result analyze_absolution erro_api (fst u) (snd u) = Inr (r, True)"
      by auto
    from u(1,2) have "snd u = fst (fetch_single_cpf_data provider c)"
      by (auto simp: completed_units_def)
    with u(2,3) ur show False by simp
  qed
qed

theorem invalid_cpf_is_api_error_witness:
  "length (filter is_digit ''123'') \<noteq> 11
   \<and> fetch_single_cpf_data (\<lambda>q. HttpJson JNull) ''123''
       = (JObj [(''cpf'', JStr ''123''), (''error'', JStr cpf_invalido)], [])
   \<and> \<lparr>cpf = ''123'', nome = JStr ''Erro na consulta'', foi_absolvido = JNull,
        total_processos_criminais = 0, status = ErroApi (JStr cpf_invalido),
        total_absolvicoes = 0, detalhes_absolvicoes = []\<rparr>
       \<in> set (results (process_batch (\<lambda>q. HttpJson JNull) [1, 0] [''12345678901'', ''123''] None))
   \<and> ''123'' \<notin> set (classified (process_batch (\<lambda>q. HttpJson JNull) [1, 0] [''12345678901'', ''123''] None))"
proof -
  have h: "length (filter is_digit ''123'') \<noteq> 11" by (simp add: is_digit_def)
  have p: "mset [1, 0] = mset [0..<length [''12345678901'', ''123'']]" by (simp add: upt_rec)
  have m: "''123'' \<in> set [''12345678901'', ''123'']" by simp
  show ?thesis
    using h invalid_cpf_is_api_error[OF h, of "\<lambda>q. HttpJson JNull" "[1, 0]" "[''12345678901'', ''123'']" None] p m
    by blast
qed

section \<open>One result for each identifier\<close>

text \<open>
  Every result of either analyzer carries the identifier it was computed for, so as long as
  the callback returns (or there is none) the loop appends one result for each completed
  future, and the identifiers of the results are those of the input, each as often.
\<close>

lemma analyze_body_cpf: "analyze_body bdc c = Inr r \<Longrightarrow> cpf r = c"
  unfolding analyze_body_def
  apply (erule py_bindE)
  apply (auto simp: dados_nao_encontrados_def split: option.splits prod.splits elim!: py_bindE)
  done

lemma analyze_absolution_cpf: "cpf (analyze_absolution bdc c) = c"
  by (cases "analyze_body bdc c")
     (simp_all add: analyze_absolution_def erro_processamento_def analyze_body_cpf)

lemma montar_resultado_cpf: "montar_resultado c nm n v = Inr r \<Longrightarrow> cpf r = c"
  unfolding montar_resultado_def by (auto elim!: py_bindE)

lemma analyze_absolution_with_llm_cpf:
  "cpf (fst (analyze_absolution_with_llm str service bdc c)) = c"
  by (auto simp: analyze_absolution_with_llm_def erro_processamento_llm_def
        dados_nao_encontrados_llm_def montar_resultado_cpf
      split: sum.splits option.splits prod.splits)

lemma batch_step_cpfs:
  assumes "\<And>b c. cpf (analyze b c) = c" "\<And>c v. cpf (ea c v) = c" "\<And>c e. cpf (ex c e) = c"
      and "callback_returns callback"
  shows "map cpf (results (batch_step analyze ea ex callback tot i u st)) =
         map cpf (results st) @ [fst u]"
proof (cases "unit_result analyze ea (fst u) (snd u)")
  case (Inl e)
  then show ?thesis using assms(3) by (simp add: batch_step_def)
next
  case (Inr p)
  obtain r b where p: "p = (r, b)" by (cases p)
  from Inr p have "cpf r = fst u"
    using assms(1,2) by (auto simp: unit_result_def split: if_splits elim!: py_bindE)
  with Inr p assms(4) show ?thesis
    by (auto simp: batch_step_def callback_returns_def Let_def split: option.splits)
qed

lemma batch_loop_cpfs:
  assumes "\<And>b c. cpf (analyze b c) = c" "\<And>c v. cpf (ea c v) = c" "\<And>c e. cpf (ex c e) = c"
      and "callback_returns callback"
  shows "map cpf (results (batch_loop analyze ea ex callback tot i units st)) =
         map cpf (results st) @ map fst units"
proof (induction units arbitrary: i st)
  case Nil
  then show ?case by simp
next
  case (Cons u units)
  show ?case
    by (simp add: Cons.IH batch_step_cpfs[OF assms])
qed

lemma completed_units_cpfs:
  "map fst (completed_units provider ordem cpfs) = map ((!) cpfs) ordem"
  by (simp add: completed_units_def comp_def)

lemma mset_map_nth_perm:
  assumes "mset ordem = mset [0..<length cpfs]"
  shows "mset (map ((!) cpfs) ordem) = mset cpfs"
proof -
  have "mset (map ((!) cpfs) ordem) = image_mset ((!) cpfs) (mset ordem)" by simp
  also have "\<dots> = image_mset ((!) cpfs) (mset [0..<length cpfs])" using assms by simp
  also have "\<dots> = mset (map ((!) cpfs) [0..<length cpfs])" by simp
  also have "\<dots> = mset cpfs" by (simp add: map_nth)
  finally show ?thesis .
qed

lemma run_batch_cpfs:
  assumes "\<And>b c. cpf (analyze b c) = c" "\<And>c v. cpf (ea c v) = c" "\<And>c e. cpf (ex c e) = c"
      and "callback_returns callback"
      and "mset ordem = mset [0..<length cpfs]"
  shows "length (results (run_batch analyze ea ex provider ordem cpfs callback)) = length cpfs"
    and "mset (map cpf (results (run_batch analyze ea ex provider ordem cpfs callback))) = mset cpfs"
proof -
  have m: "map cpf (results (run_batch analyze ea ex provider ordem cpfs callback)) =
           map ((!) cpfs) ordem"
    by (simp add: run_batch_def batch_loop_cpfs[OF assms(1-4)] completed_units_cpfs)
  from m show "mset (map cpf (results (run_batch analyze ea ex provider ordem cpfs callback))) = mset cpfs"
    using mset_map_nth_perm[OF assms(5)] by simp
  have "length (map cpf (results (run_batch analyze ea ex provider ordem cpfs callback))) = length ordem"
    by (simp only: m length_map)
  moreover have "length ordem = length cpfs"
    using assms(5) by (metis length_upt mset_eq_length minus_nat.diff_0)
  ultimately show "length (results (run_batch analyze ea ex provider ordem cpfs callback)) = length cpfs"
    by simp
qed

lemma one_result_per_cpf_when_callback_returns:
  assumes "mset ordem = mset [0..<length cpfs]"
  shows "callback_returns callback \<Longrightarrow>
           length (results (process_batch provider ordem cpfs callback)) = length cpfs
           \<and> mset (map cpf (results (process_batch provider ordem cpfs callback))) = mset cpfs"
    and "callback_returns callback' \<Longrightarrow>
           length (results (process_batch_llm str service provider ordem cpfs callback')) = length cpfs
           \<and> mset (map cpf (results (process_batch_llm str service provider ordem cpfs callback'))) = mset cpfs"
proof -
  assume c: "callback_returns callback"
  show "length (results (process_batch provider ordem cpfs callback)) = length cpfs
           \<and> mset (map cpf (results (process_batch provider ordem cpfs callback))) = mset cpfs"
    unfolding process_batch_def
    using run_batch_cpfs[of analyze_absolution erro_api excecao callback ordem cpfs provider] c assms
    by (simp add: analyze_absolution_cpf erro_api_def excecao_def)
next
  assume c: "callback_returns callback'"
  show "length (results (process_batch_llm str service provider ordem cpfs callback')) = length cpfs
           \<and> mset (map cpf (results (process_batch_llm str service provider ordem cpfs callback'))) = mset cpfs"
    unfolding process_batch_llm_def
    using run_batch_cpfs[of "\<lambda>bdc_data cpf_raw. fst (analyze_absolution_with_llm str service bdc_data cpf_raw)"
        "erro_api_llm str" "excecao_llm str" callback' ordem cpfs provider] c assms
    by (simp add: analyze_absolution_with_llm_cpf erro_api_llm_def excecao_llm_def)
qed

text \<open>
  Claim C1 says that for every input list and every progress callback, or none, the result
  list is as long as the input and carries the same identifiers, each as often. The call of
  the callback stands inside the \<open>try\<close>, after the result has been appended, and the
  handler appends a result of its own: a callback that raises leaves two results for the
  one identifier. Here the batch is the single invalid identifier 123 and the callback
  raises at its first call.
\<close>

theorem raising_callback_duplicates_result:
  "map cpf (results (process_batch (\<lambda>q. HttpJson JNull) [0] [''123'']
                       (Some (\<lambda>calls. Some (Raised ''boom''))))) = [''123'', ''123'']
   \<and> map status (results (process_batch (\<lambda>q. HttpJson JNull) [0] [''123'']
                          (Some (\<lambda>calls. Some (Raised ''boom''))))) =
       [ErroApi (JStr cpf_invalido), Excecao (Raised ''boom'')]"
  by code_simp

section \<open>The calls made to the progress callback\<close>

text \<open>
  With a callback, the calls the loop makes are those of the units whose result was
  computed, in the order of completion, each with the rank of its unit, the size of the
  batch and the result just appended; a unit whose result raised is passed over, while its
  rank is used up. Without a callback there is no call.
\<close>

lemma batch_step_progress_calls:
  "progress_calls (batch_step analyze ea ex (Some f) tot i u st) =
   progress_calls st @ unit_calls analyze ea tot (i, u)"
  by (auto simp: batch_step_def unit_calls_def Let_def split: sum.splits option.splits prod.splits)

lemma batch_loop_progress_calls:
  "progress_calls (batch_loop analyze ea ex (Some f) tot i units st) =
   progress_calls st @ concat (map (unit_calls analyze ea tot) (zip [i..<i + length units] units))"
proof (induction units arbitrary: i st)
  case Nil
  then show ?case by simp
next
  case (Cons u units)
  have "[i..<i + length (u # units)] = i # [Suc i..<Suc i + length units]"
    by (subst upt_rec) simp
  then show ?case
    by (simp add: Cons.IH batch_step_progress_calls)
qed

lemma batch_loop_no_callback:
  "progress_calls (batch_loop analyze ea ex None tot i units st) = progress_calls st"
  by (induction units arbitrary: i st)
     (auto simp: batch_step_def Let_def split: sum.splits prod.splits)

text \<open>
  Claim C9 says that a callback given to \<open>process_batch\<close> is called exactly once for each
  completed unit, with the size of the batch, the result just completed and a count that runs
  from 1 up to the size of the batch. The handler of the loop appends its result and does
  not call the callback. Here the provider answers the one valid identifier with the JSON
  body \<open>null\<close>, on which the test for the key \<open>error\<close> raises: the batch returns one
  result and the callback, which never raises, was not called.
\<close>

theorem no_progress_call_when_unit_raises:
  "map status (results (process_batch (\<lambda>q. HttpJson JNull) [0] [''12345678901'']
                          (Some (\<lambda>calls. None)))) = [Excecao TypeError]
   \<and> progress_calls (process_batch (\<lambda>q. HttpJson JNull) [0] [''12345678901'']
                        (Some (\<lambda>calls. None))) = []"
  by code_simp

section \<open>The defendant filter\<close>

lemma parte_is_reu_not_dict [simp]: "parte_is_reu nm (JStr s) = Inl AttributeError"
  by (simp add: parte_is_reu_def py_bind_def)

lemma parte_is_reu_spec:
  "parte_is_reu (JStr nome_pessoa) parte = Inr m \<Longrightarrow> m = parte_satisfaz nome_pessoa parte"
  unfolding parte_is_reu_def
  apply (erule py_bindE)+
  apply (drule py_get_InrD str_upper_InrD str_strip_InrD)+
  apply (clarsimp simp: parte_satisfaz_def campo_texto_def subtipo_def uppercases_to_def py_bind_def
      split: if_splits)
  done

lemma partes_is_reu_spec:
  "partes_is_reu (JStr nome_pessoa) partes = Inr b \<Longrightarrow> b = list_ex (parte_satisfaz nome_pessoa) partes"
proof (induction partes)
  case Nil
  then show ?case by simp
next
  case (Cons parte partes)
  from Cons.prems obtain m where m: "parte_is_reu (JStr nome_pessoa) parte = Inr m"
    by (auto split: sum.splits)
  then have ms: "m = parte_satisfaz nome_pessoa parte" by (rule parte_is_reu_spec)
  show ?case
  proof (cases m)
    case True
    with Cons.prems m ms show ?thesis by simp
  next
    case False
    with Cons.prems m have "partes_is_reu (JStr nome_pessoa) partes = Inr b" by simp
    with Cons.IH ms False show ?thesis by simp
  qed
qed

lemma is_reu_spec:
  assumes "is_reu (JStr nome_pessoa) proc = Inr b"
  shows "b = spec_is_defendant nome_pessoa proc"
proof (cases proc)
  case (JObj kvs)
  show ?thesis
  proof (cases "dict_get kvs ''CourtType'' JNull = JStr ''CRIMINAL''")
    case False
    with assms JObj show ?thesis
      by (simp add: is_reu_def spec_is_defendant_def py_bind_def)
  next
    case True
    show ?thesis
    proof (cases "dict_get kvs ''Parties'' (JArr [])")
      case (JArr partes)
      with assms JObj True have "partes_is_reu (JStr nome_pessoa) partes = Inr b"
        by (simp add: is_reu_def py_bind_def)
      then have "b = list_ex (parte_satisfaz nome_pessoa) partes" by (rule partes_is_reu_spec)
      with JObj True JArr show ?thesis by (simp add: spec_is_defendant_def)
    next
      case (JStr s)
      with assms JObj True show ?thesis
        by (cases s) (simp_all add: is_reu_def spec_is_defendant_def py_bind_def)
    next
      case (JObj ps)
      with assms \<open>proc = JObj kvs\<close> True show ?thesis
        by (cases ps) (simp_all add: is_reu_def spec_is_defendant_def py_bind_def)
    qed (use assms JObj True in \<open>simp_all add: is_reu_def py_bind_def\<close>)
  qed
qed (use assms in \<open>simp_all add: is_reu_def py_bind_def\<close>)

lemma is_reu_not_criminal:
  "py_get proc ''CourtType'' JNull \<noteq> Inr (JStr ''CRIMINAL'') \<Longrightarrow> is_reu nm proc \<noteq> Inr True"
  by (cases proc) (auto simp: is_reu_def py_bind_def)

text \<open>
  Claim C5, as amended. Whenever the filter returns for a person's name and a lawsuit, it
  returns true exactly when the lawsuit's court type is CRIMINAL and some party has a
  defendant role (its role label uppercases to DEFENDANT or to the Portuguese word, or its
  detailed-role subtype uppercases to that word) and a trimmed, uppercased name that
  contains the person's trimmed, uppercased name. For a lawsuit whose court type is not
  CRIMINAL the filter never returns true, whatever the parties hold.
\<close>

theorem defendant_filter_when_it_returns:
  "(is_reu (JStr nome_pessoa) proc = Inr b \<longrightarrow> b = spec_is_defendant nome_pessoa proc)
   \<and> (py_get proc ''CourtType'' JNull \<noteq> Inr (JStr ''CRIMINAL'') \<longrightarrow> is_reu nm proc \<noteq> Inr True)"
  using is_reu_spec is_reu_not_criminal by blast

theorem defendant_filter_when_it_returns_witness:
  "is_reu (JStr ''Joao Silva'') processo_a = Inr True
   \<and> True = spec_is_defendant ''Joao Silva'' processo_a
   \<and> py_get processo_civel ''CourtType'' JNull \<noteq> Inr (JStr ''CRIMINAL'')
   \<and> is_reu (JStr ''Joao Silva'') processo_civel \<noteq> Inr True"
proof -
  have h1: "is_reu (JStr ''Joao Silva'') processo_a = Inr True" by code_simp
  have h2: "py_get processo_civel ''CourtType'' JNull \<noteq> Inr (JStr ''CRIMINAL'')" by code_simp
  show ?thesis
    by (intro conjI)
       (rule h1 h2
          defendant_filter_when_it_returns[where nome_pessoa = "''Joao Silva''" and proc = processo_a
            and b = True, THEN conjunct1, rule_format, OF h1]
          defendant_filter_when_it_returns[where proc = processo_civel and nm = "JStr ''Joao Silva''",
            THEN conjunct2, rule_format, OF h2])+
qed

text \<open>
  The claim as first stated has no proviso. A party that satisfies the condition and whose
  \<open>PartyDetails\<close> is \<open>null\<close> makes the filter raise, so the person is counted in no
  lawsuit and the analysis ends in its error result.
\<close>

theorem null_party_details_counterexample:
  "spec_is_defendant ''Joao Silva'' processo_detalhes_nulos
   \<and> is_reu (JStr ''Joao Silva'') processo_detalhes_nulos = Inl AttributeError
   \<and> status (analyze_absolution (payload_de (JStr ''Joao Silva'') [processo_detalhes_nulos]) ''12345678901'')
       = Erro AttributeError
   \<and> total_processos_criminais
       (analyze_absolution (payload_de (JStr ''Joao Silva'') [processo_detalhes_nulos]) ''12345678901'') = 0"
  by code_simp

section \<open>The keyword analyzer\<close>

lemma analyze_absolution_read:
  assumes "ler_pessoa bdc = Inr (Some (nm, lawsuits))"
      and "filtrar_processos nm lawsuits = Inr procs"
      and "scan_processos procs [] = Inr absolvicoes"
  shows "analyze_absolution bdc c =
     \<lparr>cpf = c, nome = nm, foi_absolvido = JBool (length absolvicoes > 0),
      total_processos_criminais = length procs, status = Sucesso,
      total_absolvicoes = length absolvicoes, detalhes_absolvicoes = absolvicoes\<rparr>"
  using assms by (simp add: analyze_absolution_def analyze_body_def py_bind_def)

lemma analyze_absolution_raises:
  "analyze_body bdc c = Inl e \<Longrightarrow> analyze_absolution bdc c = erro_processamento c e"
  by (simp add: analyze_absolution_def)

lemma ler_pessoa_no_result:
  "dict_get kvs ''Result'' (JArr []) = JArr [] \<Longrightarrow> ler_pessoa (JObj kvs) = Inr None"
  by (auto simp: ler_pessoa_def py_bind_def dict_get_def map_of_eq_None_iff split: option.splits)

lemma scan_campos_no_keyword:
  "(\<And>s. JStr s \<in> set campos \<Longrightarrow> \<not> tem_palavra (py_lower s)) \<Longrightarrow>
   scan_campos proc numero campos absolvicoes = Inr absolvicoes"
proof (induction proc numero campos absolvicoes rule: scan_campos.induct)
  case (1 proc numero absolvicoes)
  then show ?case by simp
next
  case (2 proc numero campo campos absolvicoes)
  have nk: "\<not> tem_palavra (py_lower campo)" using "2.prems" by simp
  have rest: "\<And>s. JStr s \<in> set campos \<Longrightarrow> \<not> tem_palavra (py_lower s)" using "2.prems" by simp
  show ?case
  proof (cases "py_strip campo \<noteq> []")
    case True
    show ?thesis
    proof (cases "ultimo_e_deste absolvicoes numero")
      case True
      with \<open>py_strip campo \<noteq> []\<close> nk show ?thesis by simp
    next
      case False
      with \<open>py_strip campo \<noteq> []\<close> nk "2.IH"(1)[of absolvicoes] rest show ?thesis by simp
    qed
  next
    case False
    with "2.IH"(2) rest show ?thesis by simp
  qed
qed (simp_all)

lemma scan_processos_no_keyword:
  "(\<And>proc campos s. proc \<in> set procs \<Longrightarrow> campos_decisao proc = Inr campos \<Longrightarrow>
       JStr s \<in> set campos \<Longrightarrow> \<not> tem_palavra (py_lower s)) \<Longrightarrow>
   scan_processos procs absolvicoes = Inr absolvicoes' \<Longrightarrow> absolvicoes' = absolvicoes"
proof (induction procs arbitrary: absolvicoes)
  case Nil
  then show ?case by simp
next
  case (Cons proc procs)
  from Cons.prems(2) obtain numero campos where
      n: "numero_processo proc = Inr numero" and c: "campos_decisao proc = Inr campos"
    by (auto split: sum.splits)
  have "scan_campos proc numero campos absolvicoes = Inr absolvicoes"
    using Cons.prems(1)[OF _ c] by (intro scan_campos_no_keyword) simp
  with Cons.prems(2) n c have "scan_processos procs absolvicoes = Inr absolvicoes'" by simp
  then show ?case using Cons.IH Cons.prems(1) by (metis list.set_intros(2))
qed

lemma mk_finding_dict:
  "mk_finding (JObj kvs) numero campo =
     Inr \<lparr>processo = numero, tipo_decisao = classify_absolution_type campo,
          data = py_or (dict_get kvs ''CloseDate'' JNull) (dict_get kvs ''LastMovementDate'' JNull),
          orgao = dict_get kvs ''CourtName'' JNull, comarca = dict_get kvs ''CourtDistrict'' JNull,
          trecho_decisao = trecho campo\<rparr>"
  by (simp add: mk_finding_def py_bind_def py_or_def)

text \<open>
  The scan of one lawsuit, when the finding that ends the list so far is not one of this
  lawsuit's number: the first field that is a string, not blank, and holds a keyword gives
  the one finding the lawsuit adds, with the type read from that field alone; the other
  fields add nothing.
\<close>

lemma scan_campos_first_match:
  assumes "\<not> ultimo_e_deste absolvicoes numero" and "py_eq numero numero"
  shows "scan_campos (JObj kvs) numero campos absolvicoes =
     (case find campo_com_palavra campos of
        Some (JStr s) \<Rightarrow>
          Inr (absolvicoes @
               [\<lparr>processo = numero, tipo_decisao = classify_absolution_type s,
                 data = py_or (dict_get kvs ''CloseDate'' JNull) (dict_get kvs ''LastMovementDate'' JNull),
                 orgao = dict_get kvs ''CourtName'' JNull, comarca = dict_get kvs ''CourtDistrict'' JNull,
                 trecho_decisao = trecho s\<rparr>])
      | _ \<Rightarrow> Inr absolvicoes)"
proof (induction campos)
  case Nil
  then show ?case by simp
next
  case (Cons campo campos)
  show ?case
  proof (cases campo)
    case (JStr s)
    show ?thesis
    proof (cases "py_strip s \<noteq> [] \<and> tem_palavra (py_lower s)")
      case True
      then show ?thesis
        using assms(2) JStr
        by (simp add: campo_com_palavra_def mk_finding_dict py_bind_def ultimo_e_deste_def)
    next
      case False
      then have "\<not> campo_com_palavra campo" using JStr by (simp add: campo_com_palavra_def)
      moreover have "scan_campos (JObj kvs) numero (campo # campos) absolvicoes =
                     scan_campos (JObj kvs) numero campos absolvicoes"
        using False JStr assms(1) by auto
      ultimately show ?thesis using Cons.IH by simp
    qed
  qed (simp_all add: Cons.IH campo_com_palavra_def)
qed

text \<open>
  Claim C2, as amended. For a payload with a result entry and no qualifying lawsuit (the
  entry and its lawsuits read without an exception, none passing the filter), the keyword
  analyzer answers not absolved: \<open>foi_absolvido\<close> is \<open>False\<close>, both counts are 0 and the
  status is success. The unknown outcome with the no-data status is the answer for a payload
  whose result set is absent or empty.
\<close>

theorem zero_qualifying_is_not_absolved:
  "(ler_pessoa bdc = Inr (Some (nm, lawsuits)) \<longrightarrow> filtrar_processos nm lawsuits = Inr [] \<longrightarrow>
      analyze_absolution bdc c =
        \<lparr>cpf = c, nome = nm, foi_absolvido = JBool False, total_processos_criminais = 0,
         status = Sucesso, total_absolvicoes = 0, detalhes_absolvicoes = []\<rparr>)
   \<and> (dict_get kvs ''Result'' (JArr []) = JArr [] \<longrightarrow>
        analyze_absolution (JObj kvs) c =
        \<lparr>cpf = c, nome = JStr nao_encontrado, foi_absolvido = JNull, total_processos_criminais = 0,
         status = DadosNaoEncontrados, total_absolvicoes = 0, detalhes_absolvicoes = []\<rparr>)"
proof (intro conjI impI)
  assume "ler_pessoa bdc = Inr (Some (nm, lawsuits))" "filtrar_processos nm lawsuits = Inr []"
  then show "analyze_absolution bdc c =
        \<lparr>cpf = c, nome = nm, foi_absolvido = JBool False, total_processos_criminais = 0,
         status = Sucesso, total_absolvicoes = 0, detalhes_absolvicoes = []\<rparr>"
    using analyze_absolution_read[of bdc nm lawsuits "[]" "[]" c] by simp
next
  assume "dict_get kvs ''Result'' (JArr []) = JArr []"
  then have "ler_pessoa (JObj kvs) = Inr None" by (rule ler_pessoa_no_result)
  then show "analyze_absolution (JObj kvs) c =
        \<lparr>cpf = c, nome = JStr nao_encontrado, foi_absolvido = JNull, total_processos_criminais = 0,
         status = DadosNaoEncontrados, total_absolvicoes = 0, detalhes_absolvicoes = []\<rparr>"
    by (simp add: analyze_absolution_def analyze_body_def py_bind_def dados_nao_encontrados_def)
qed

theorem zero_qualifying_is_not_absolved_witness:
  "ler_pessoa (payload_de (JStr ''Joao Silva'') [processo_civel]) =
     Inr (Some (JStr ''Joao Silva'', [processo_civel]))
   \<and> filtrar_processos (JStr ''Joao Silva'') [processo_civel] = Inr []
   \<and> analyze_absolution (payload_de (JStr ''Joao Silva'') [processo_civel]) ''12345678901'' =
        \<lparr>cpf = ''12345678901'', nome = JStr ''Joao Silva'', foi_absolvido = JBool False,
         total_processos_criminais = 0, status = Sucesso, total_absolvicoes = 0,
         detalhes_absolvicoes = []\<rparr>
   \<and> dict_get [] ''Result'' (JArr []) = JArr []
   \<and> analyze_absolution (JObj []) ''12345678901'' =
        \<lparr>cpf = ''12345678901'', nome = JStr nao_encontrado, foi_absolvido = JNull,
         total_processos_criminais = 0, status = DadosNaoEncontrados, total_absolvicoes = 0,
         detalhes_absolvicoes = []\<rparr>"
proof -
  have h1: "ler_pessoa (payload_de (JStr ''Joao Silva'') [processo_civel]) =
     Inr (Some (JStr ''Joao Silva'', [processo_civel]))" by code_simp
  have h2: "filtrar_processos (JStr ''Joao Silva'') [processo_civel] = Inr []" by code_simp
  have h3: "dict_get [] ''Result'' (JArr []) = JArr []" by (simp add: dict_get_def)
  note t = zero_qualifying_is_not_absolved[where bdc = "payload_de (JStr ''Joao Silva'') [processo_civel]"
      and nm = "JStr ''Joao Silva''" and lawsuits = "[processo_civel]" and c = "''12345678901''"
      and kvs = "[]"]
  show ?thesis
    by (intro conjI) (rule h1 h2 h3 t[THEN conjunct1, rule_format, OF h1 h2]
          t[THEN conjunct2, rule_format, OF h3])+
qed

text \<open>
  The claim as first stated asks for the unknown outcome. Here the person's only lawsuit is
  a civil one.
\<close>

theorem zero_qualifying_counterexample:
  "total_processos_criminais
     (analyze_absolution (payload_de (JStr ''Joao Silva'') [processo_civel]) ''12345678901'') = 0
   \<and> foi_absolvido
       (analyze_absolution (payload_de (JStr ''Joao Silva'') [processo_civel]) ''12345678901'') = JBool False
   \<and> foi_absolvido
       (analyze_absolution (payload_de (JStr ''Joao Silva'') [processo_civel]) ''12345678901'') \<noteq> JNull
   \<and> status
       (analyze_absolution (payload_de (JStr ''Joao Silva'') [processo_civel]) ''12345678901'') = Sucesso"
  by code_simp

text \<open>
  Claim C3, as amended. For a payload with a result entry on which the analysis raises no
  exception, \<open>foi_absolvido\<close> is the bool that says whether the list of findings is not
  empty, \<open>total_absolvicoes\<close> is its length and the status is success; in particular, when
  no scanned field of any qualifying lawsuit holds a keyword, \<open>foi_absolvido\<close> is
  \<open>False\<close> and \<open>total_absolvicoes\<close> is 0. When the analysis raises, the outcome is
  unknown and the status carries the exception.
\<close>

theorem outcome_counts_findings:
  "(ler_pessoa bdc = Inr (Some (nm, lawsuits)) \<longrightarrow> filtrar_processos nm lawsuits = Inr procs \<longrightarrow>
    scan_processos procs [] = Inr absolvicoes \<longrightarrow>
      analyze_absolution bdc c =
        \<lparr>cpf = c, nome = nm, foi_absolvido = JBool (length absolvicoes > 0),
         total_processos_criminais = length procs, status = Sucesso,
         total_absolvicoes = length absolvicoes, detalhes_absolvicoes = absolvicoes\<rparr>
      \<and> ((\<forall>proc \<in> set procs. \<forall>campos. campos_decisao proc = Inr campos \<longrightarrow>
             (\<forall>s. JStr s \<in> set campos \<longrightarrow> \<not> tem_palavra (py_lower s))) \<longrightarrow>
           foi_absolvido (analyze_absolution bdc c) = JBool False
           \<and> total_absolvicoes (analyze_absolution bdc c) = 0))
   \<and> (analyze_body bdc c = Inl e \<longrightarrow>
        foi_absolvido (analyze_absolution bdc c) = JNull
        \<and> status (analyze_absolution bdc c) = Erro e)"
proof (intro conjI impI)
  assume a: "ler_pessoa bdc = Inr (Some (nm, lawsuits))" "filtrar_processos nm lawsuits = Inr procs"
    "scan_processos procs [] = Inr absolvicoes"
  then show r: "analyze_absolution bdc c =
        \<lparr>cpf = c, nome = nm, foi_absolvido = JBool (length absolvicoes > 0),
         total_processos_criminais = length procs, status = Sucesso,
         total_absolvicoes = length absolvicoes, detalhes_absolvicoes = absolvicoes\<rparr>"
    by (rule analyze_absolution_read)
  assume nk: "\<forall>proc \<in> set procs. \<forall>campos. campos_decisao proc = Inr campos \<longrightarrow>
             (\<forall>s. JStr s \<in> set campos \<longrightarrow> \<not> tem_palavra (py_lower s))"
  have "absolvicoes = []"
    using nk by (intro scan_processos_no_keyword[OF _ a(3)]) blast
  with r show "foi_absolvido (analyze_absolution bdc c) = JBool False"
    and "total_absolvicoes (analyze_absolution bdc c) = 0" by simp_all
next
  assume "analyze_body bdc c = Inl e"
  then have "analyze_absolution bdc c = erro_processamento c e" by (rule analyze_absolution_raises)
  then show "foi_absolvido (analyze_absolution bdc c) = JNull"
    and "status (analyze_absolution bdc c) = Erro e" by (simp_all add: erro_processamento_def)
qed

theorem outcome_counts_findings_witness:
  "ler_pessoa (payload_de (JStr ''Joao Silva'') [processo_condenado]) =
     Inr (Some (JStr ''Joao Silva'', [processo_condenado]))
   \<and> filtrar_processos (JStr ''Joao Silva'') [processo_condenado] = Inr [processo_condenado]
   \<and> scan_processos [processo_condenado] [] = Inr []
   \<and> analyze_absolution (payload_de (JStr ''Joao Silva'') [processo_condenado]) ''12345678901'' =
        \<lparr>cpf = ''12345678901'', nome = JStr ''Joao Silva'', foi_absolvido = JBool (length ([] :: finding list) > 0),
         total_processos_criminais = length [processo_condenado], status = Sucesso,
         total_absolvicoes = length ([] :: finding list), detalhes_absolvicoes = []\<rparr>
   \<and> foi_absolvido (analyze_absolution (payload_de (JStr ''Joao Silva'') [processo_condenado]) ''12345678901'')
       = JBool False
   \<and> total_absolvicoes (analyze_absolution (payload_de (JStr ''Joao Silva'') [processo_condenado]) ''12345678901'')
       = 0
   \<and> analyze_body (payload_de (JStr ''Joao Silva'') [processo_decisoes_nulas]) ''12345678901'' = Inl TypeError
   \<and> foi_absolvido (analyze_absolution (payload_de (JStr ''Joao Silva'') [processo_decisoes_nulas]) ''12345678901'')
       = JNull
   \<and> status (analyze_absolution (payload_de (JStr ''Joao Silva'') [processo_decisoes_nulas]) ''12345678901'')
       = Erro TypeError"
proof -
  have h1: "ler_pessoa (payload_de (JStr ''Joao Silva'') [processo_condenado]) =
     Inr (Some (JStr ''Joao Silva'', [processo_condenado]))" by code_simp
  have h2: "filtrar_processos (JStr ''Joao Silva'') [processo_condenado] = Inr [processo_condenado]"
    by code_simp
  have h3: "scan_processos [processo_condenado] [] = Inr []" by code_simp
  have cs: "campos_decisao processo_condenado = Inr [JStr ''Reu condenado'', JStr [], JStr [], JStr []]"
    by code_simp
  have n1: "\<not> tem_palavra (py_lower ''Reu condenado'')" by code_simp
  have n2: "\<not> tem_palavra (py_lower [])" by code_simp
  have h4: "\<forall>proc \<in> set [processo_condenado]. \<forall>campos. campos_decisao proc = Inr campos \<longrightarrow>
             (\<forall>s. JStr s \<in> set campos \<longrightarrow> \<not> tem_palavra (py_lower s))"
    using cs n1 n2 by auto
  have h5: "analyze_body (payload_de (JStr ''Joao Silva'') [processo_decisoes_nulas]) ''12345678901'' = Inl TypeError"
    by code_simp
  note t = outcome_counts_findings[where bdc = "payload_de (JStr ''Joao Silva'') [processo_condenado]"
      and nm = "JStr ''Joao Silva''" and lawsuits = "[processo_condenado]" and procs = "[processo_condenado]"
      and absolvicoes = "[]" and c = "''12345678901''"]
  note a = t[THEN conjunct1, rule_format, OF h1 h2 h3]
  note u = outcome_counts_findings[where bdc = "payload_de (JStr ''Joao Silva'') [processo_decisoes_nulas]"
      and c = "''12345678901''" and e = TypeError, THEN conjunct2, rule_format, OF h5]
  note b = a[THEN conjunct2, THEN mp, OF h4]
  show ?thesis
    by (intro conjI) (rule h1 h2 h3 h5 a[THEN conjunct1] b[THEN conjunct1] b[THEN conjunct2]
          u[THEN conjunct1] u[THEN conjunct2])+
qed

text \<open>
  The claim as first stated says never unknown once there is a result entry. Here the
  person has one qualifying lawsuit, whose decision text says absolved and whose list of
  decisions is \<open>null\<close>: the loop over the decisions raises.
\<close>

theorem null_decisions_counterexample:
  "filtrar_processos (JStr ''Joao Silva'') [processo_decisoes_nulas] = Inr [processo_decisoes_nulas]
   \<and> foi_absolvido
       (analyze_absolution (payload_de (JStr ''Joao Silva'') [processo_decisoes_nulas]) ''12345678901'') = JNull
   \<and> status
       (analyze_absolution (payload_de (JStr ''Joao Silva'') [processo_decisoes_nulas]) ''12345678901'')
       = Erro TypeError"
  by code_simp

text \<open>
  Claim C4 says that a qualifying lawsuit with a keyword in one of its scanned fields yields
  exactly one finding, from the first field that holds one, and that its other fields are
  passed over only after that match. The loop over the fields ends as soon as the last
  finding of the list carries this lawsuit's number, whether or not this lawsuit added it.
  Here two qualifying lawsuits carry the number 1. The first is found absolved in its first
  field. The second has no keyword in its first field and one in its second: the loop ends
  after the first field, and the lawsuit, which alone yields its finding, yields none.
\<close>

theorem same_number_hides_later_match:
  "total_processos_criminais
     (analyze_absolution (payload_de (JStr ''Joao Silva'') [processo_a, processo_b]) ''12345678901'') = 2
   \<and> map trecho_decisao (detalhes_absolvicoes
        (analyze_absolution (payload_de (JStr ''Joao Silva'') [processo_a, processo_b]) ''12345678901''))
       = [''O reu foi absolvido'']
   \<and> campos_decisao processo_b =
       Inr [JStr ''Reu condenado'', JStr ''Recurso provido: reu absolvido'', JStr [], JStr []]
   \<and> tem_palavra (py_lower ''Recurso provido: reu absolvido'')
   \<and> map trecho_decisao (detalhes_absolvicoes
        (analyze_absolution (payload_de (JStr ''Joao Silva'') [processo_b]) ''12345678901''))
       = [''Recurso provido: reu absolvido'']"
  by code_simp

section \<open>The analyzer with the reasoning service\<close>

lemma analyze_with_llm_blank:
  "py_strip texto = [] \<Longrightarrow>
   analyze_with_llm service texto dados =
     (JObj [(''foi_absolvido'', JNull), (''confianca_analise'', JNum 0),
            (''justificativa'', JStr nenhuma_decisao),
            (''detalhes_ia'', JStr ''Sem dados suficientes'')], [])"
  by (simp add: analyze_with_llm_def)

lemma analyze_with_llm_fails:
  "py_strip texto \<noteq> [] \<Longrightarrow> service (fst dados, snd dados, texto) = LlmFails msg \<Longrightarrow>
   analyze_with_llm service texto dados =
     (JObj [(''foi_absolvido'', JNull), (''confianca_analise'', JNum 0),
            (''justificativa'', JStr (erro_analise_ia @ msg)),
            (''detalhes_ia'', JStr ''Falha no processamento'')], [(fst dados, snd dados, texto)])"
  by (simp add: analyze_with_llm_def Let_def)

lemma analyze_with_llm_json:
  "py_strip texto \<noteq> [] \<Longrightarrow> service (fst dados, snd dados, texto) = LlmJson v \<Longrightarrow>
   analyze_with_llm service texto dados = (v, [(fst dados, snd dados, texto)])"
  by (simp add: analyze_with_llm_def Let_def)

lemma montar_resultado_dict:
  "montar_resultado c nm n (JObj kvs) =
     Inr \<lparr>cpf = c, nome = nm, foi_absolvido = dict_get kvs ''foi_absolvido'' JNull,
          total_processos_criminais = n, status = Sucesso,
          confianca_analise = dict_get kvs ''confianca_analise'' (JNum 0),
          justificativa = dict_get kvs ''justificativa'' (JStr []),
          detalhes_ia = dict_get kvs ''detalhes_ia'' (JStr [])\<rparr>"
  by (simp add: montar_resultado_def py_bind_def)

lemma analyze_absolution_with_llm_prepared:
  "preparar_llm str bdc = Inr (Some (nm, procs, texto)) \<Longrightarrow>
   analyze_with_llm service texto (nm, c) = (JObj kvs, reqs) \<Longrightarrow>
   analyze_absolution_with_llm str service bdc c =
     (\<lparr>cpf = c, nome = nm, foi_absolvido = dict_get kvs ''foi_absolvido'' JNull,
       total_processos_criminais = length procs, status = Sucesso,
       confianca_analise = dict_get kvs ''confianca_analise'' (JNum 0),
       justificativa = dict_get kvs ''justificativa'' (JStr []),
       detalhes_ia = dict_get kvs ''detalhes_ia'' (JStr [])\<rparr>, reqs)"
  by (simp add: analyze_absolution_with_llm_def montar_resultado_dict)

text \<open>
  Claim C7. When the consolidated text of the qualifying lawsuits is empty or blank,
  \<open>analyze_with_llm\<close> answers unknown with confidence 0 and the rationale that no decision
  is available, and sends no request to the service; when the call of the service or the
  decoding of its answer raises, it answers unknown with confidence 0 and a rationale that
  ends in the text of the exception. In both cases \<open>analyze_absolution_with_llm\<close> returns
  the result with these values: nothing is raised.
\<close>

theorem blank_narrative_or_failed_service_is_unknown:
  "(py_strip texto = [] \<longrightarrow>
      analyze_with_llm service texto dados =
        (JObj [(''foi_absolvido'', JNull), (''confianca_analise'', JNum 0),
               (''justificativa'', JStr nenhuma_decisao),
               (''detalhes_ia'', JStr ''Sem dados suficientes'')], []))
   \<and> (py_strip texto \<noteq> [] \<longrightarrow> service (fst dados, snd dados, texto) = LlmFails msg \<longrightarrow>
      analyze_with_llm service texto dados =
        (JObj [(''foi_absolvido'', JNull), (''confianca_analise'', JNum 0),
               (''justificativa'', JStr (erro_analise_ia @ msg)),
               (''detalhes_ia'', JStr ''Falha no processamento'')], [(fst dados, snd dados, texto)]))
   \<and> (preparar_llm str bdc = Inr (Some (nm, procs, texto)) \<longrightarrow> py_strip texto = [] \<longrightarrow>
      analyze_absolution_with_llm str service bdc c =
        (\<lparr>cpf = c, nome = nm, foi_absolvido = JNull,
          total_processos_criminais = length procs, status = Sucesso,
          confianca_analise = JNum 0, justificativa = JStr nenhuma_decisao,
          detalhes_ia = JStr ''Sem dados suficientes''\<rparr>, []))
   \<and> (preparar_llm str bdc = Inr (Some (nm, procs, texto)) \<longrightarrow> py_strip texto \<noteq> [] \<longrightarrow>
      service (nm, c, texto) = LlmFails msg \<longrightarrow>
      analyze_absolution_with_llm str service bdc c =
        (\<lparr>cpf = c, nome = nm, foi_absolvido = JNull,
          total_processos_criminais = length procs, status = Sucesso,
          confianca_analise = JNum 0, justificativa = JStr (erro_analise_ia @ msg),
          detalhes_ia = JStr ''Falha no processamento''\<rparr>, [(nm, c, texto)]))"
proof (intro conjI impI)
  assume "py_strip texto = []"
  then show "analyze_with_llm service texto dados =
        (JObj [(''foi_absolvido'', JNull), (''confianca_analise'', JNum 0),
               (''justificativa'', JStr nenhuma_decisao),
               (''detalhes_ia'', JStr ''Sem dados suficientes'')], [])"
    by (rule analyze_with_llm_blank)
next
  assume "py_strip texto \<noteq> []" "service (fst dados, snd dados, texto) = LlmFails msg"
  then show "analyze_with_llm service texto dados =
        (JObj [(''foi_absolvido'', JNull), (''confianca_analise'', JNum 0),
               (''justificativa'', JStr (erro_analise_ia @ msg)),
               (''detalhes_ia'', JStr ''Falha no processamento'')], [(fst dados, snd dados, texto)])"
    by (rule analyze_with_llm_fails)
next
  assume p: "preparar_llm str bdc = Inr (Some (nm, procs, texto))" and b: "py_strip texto = []"
  show "analyze_absolution_with_llm str service bdc c =
        (\<lparr>cpf = c, nome = nm, foi_absolvido = JNull,
          total_processos_criminais = length procs, status = Sucesso,
          confianca_analise = JNum 0, justificativa = JStr nenhuma_decisao,
          detalhes_ia = JStr ''Sem dados suficientes''\<rparr>, [])"
    using analyze_absolution_with_llm_prepared[OF p analyze_with_llm_blank[OF b], of service c]
    by (simp add: dict_get_def)
next
  assume p: "preparar_llm str bdc = Inr (Some (nm, procs, texto))" and b: "py_strip texto \<noteq> []"
    and f: "service (nm, c, texto) = LlmFails msg"
  have "analyze_with_llm service texto (nm, c) =
     (JObj [(''foi_absolvido'', JNull), (''confianca_analise'', JNum 0),
            (''justificativa'', JStr (erro_analise_ia @ msg)),
            (''detalhes_ia'', JStr ''Falha no processamento'')], [(nm, c, texto)])"
    using analyze_with_llm_fails[OF b, of service "(nm, c)" msg] f by simp
  from analyze_absolution_with_llm_prepared[OF p this]
  show "analyze_absolution_with_llm str service bdc c =
        (\<lparr>cpf = c, nome = nm, foi_absolvido = JNull,
          total_processos_criminais = length procs, status = Sucesso,
          confianca_analise = JNum 0, justificativa = JStr (erro_analise_ia @ msg),
          detalhes_ia = JStr ''Falha no processamento''\<rparr>, [(nm, c, texto)])"
    by (simp add: dict_get_def)
qed

theorem blank_narrative_or_failed_service_is_unknown_witness:
  "py_strip [] = []
   \<and> analyze_with_llm (\<lambda>req. LlmFails ''timeout'') [] (JStr ''Joao Silva'', ''12345678901'') =
        (JObj [(''foi_absolvido'', JNull), (''confianca_analise'', JNum 0),
               (''justificativa'', JStr nenhuma_decisao),
               (''detalhes_ia'', JStr ''Sem dados suficientes'')], [])
   \<and> py_strip narrativa_a \<noteq> []
   \<and> analyze_with_llm (\<lambda>req. LlmFails ''timeout'') narrativa_a (JStr ''Joao Silva'', ''12345678901'') =
        (JObj [(''foi_absolvido'', JNull), (''confianca_analise'', JNum 0),
               (''justificativa'', JStr (erro_analise_ia @ ''timeout'')),
               (''detalhes_ia'', JStr ''Falha no processamento'')],
         [(fst (JStr ''Joao Silva'', ''12345678901''), snd (JStr ''Joao Silva'', ''12345678901''), narrativa_a)])
   \<and> preparar_llm str_exemplo (payload_de (JStr ''Joao Silva'') [processo_sem_texto]) =
        Inr (Some (JStr ''Joao Silva'', [processo_sem_texto], []))
   \<and> analyze_absolution_with_llm str_exemplo (\<lambda>req. LlmFails ''timeout'')
        (payload_de (JStr ''Joao Silva'') [processo_sem_texto]) ''12345678901'' =
        (\<lparr>cpf = ''12345678901'', nome = JStr ''Joao Silva'', foi_absolvido = JNull,
          total_processos_criminais = length [processo_sem_texto], status = Sucesso,
          confianca_analise = JNum 0, justificativa = JStr nenhuma_decisao,
          detalhes_ia = JStr ''Sem dados suficientes''\<rparr>, [])
   \<and> preparar_llm str_exemplo (payload_de (JStr ''Joao Silva'') [processo_a]) =
        Inr (Some (JStr ''Joao Silva'', [processo_a], narrativa_a))
   \<and> analyze_absolution_with_llm str_exemplo (\<lambda>req. LlmFails ''timeout'')
        (payload_de (JStr ''Joao Silva'') [processo_a]) ''12345678901'' =
        (\<lparr>cpf = ''12345678901'', nome = JStr ''Joao Silva'', foi_absolvido = JNull,
          total_processos_criminais = length [processo_a], status = Sucesso,
          confianca_analise = JNum 0, justificativa = JStr (erro_analise_ia @ ''timeout''),
          detalhes_ia = JStr ''Falha no processamento''\<rparr>,
         [(JStr ''Joao Silva'', ''12345678901'', narrativa_a)])"
proof -
  have e: "py_strip [] = []" by code_simp
  have n: "py_strip narrativa_a \<noteq> []" by code_simp
  have f1: "(\<lambda>req. LlmFails ''timeout'')
              (fst (JStr ''Joao Silva'', ''12345678901''), snd (JStr ''Joao Silva'', ''12345678901''), narrativa_a)
            = LlmFails ''timeout''" by simp
  have f2: "(\<lambda>req. LlmFails ''timeout'') (JStr ''Joao Silva'', ''12345678901'', narrativa_a)
            = LlmFails ''timeout''" by simp
  have p1: "preparar_llm str_exemplo (payload_de (JStr ''Joao Silva'') [processo_sem_texto]) =
        Inr (Some (JStr ''Joao Silva'', [processo_sem_texto], []))" by code_simp
  have p2: "preparar_llm str_exemplo (payload_de (JStr ''Joao Silva'') [processo_a]) =
        Inr (Some (JStr ''Joao Silva'', [processo_a], narrativa_a))" by code_simp
  note a1 = blank_narrative_or_failed_service_is_unknown[where texto = "[]"
      and service = "\<lambda>req. LlmFails ''timeout''" and dados = "(JStr ''Joao Silva'', ''12345678901'')"
      and str = str_exemplo and bdc = "payload_de (JStr ''Joao Silva'') [processo_sem_texto]"
      and nm = "JStr ''Joao Silva''" and procs = "[processo_sem_texto]" and c = "''12345678901''"]
  note a2 = blank_narrative_or_failed_service_is_unknown[where texto = narrativa_a
      and service = "\<lambda>req. LlmFails ''timeout''" and dados = "(JStr ''Joao Silva'', ''12345678901'')"
      and msg = "''timeout''"
      and str = str_exemplo and bdc = "payload_de (JStr ''Joao Silva'') [processo_a]"
      and nm = "JStr ''Joao Silva''" and procs = "[processo_a]" and c = "''12345678901''"]
  show ?thesis
    by (intro conjI)
       (rule e n p1 p2
          a1[THEN conjunct1, rule_format, OF e]
          a2[THEN conjunct2, THEN conjunct1, rule_format, OF n f1]
          a1[THEN conjunct2, THEN conjunct2, THEN conjunct1, rule_format, OF p1 e]
          a2[THEN conjunct2, THEN conjunct2, THEN conjunct2, rule_format, OF p2 n f2])+
qed

text \<open>
  Claim C10. When the service answers a JSON object, the result has the status success and
  the outcome, confidence, rationale and detail of the answer as they are, with \<open>None\<close>,
  0 and the empty string for a key that is absent; nothing is checked, and there is an
  answer, with the outcome \<open>talvez\<close> and the confidence 250, that lands in the result as
  it is.
\<close>

theorem service_answer_is_copied_unchecked:
  "(preparar_llm str bdc = Inr (Some (nm, procs, texto)) \<longrightarrow> py_strip texto \<noteq> [] \<longrightarrow>
    service (nm, c, texto) = LlmJson (JObj kvs) \<longrightarrow>
      analyze_absolution_with_llm str service bdc c =
        (\<lparr>cpf = c, nome = nm, foi_absolvido = dict_get kvs ''foi_absolvido'' JNull,
          total_processos_criminais = length procs, status = Sucesso,
          confianca_analise = dict_get kvs ''confianca_analise'' (JNum 0),
          justificativa = dict_get kvs ''justificativa'' (JStr []),
          detalhes_ia = dict_get kvs ''detalhes_ia'' (JStr [])\<rparr>, [(nm, c, texto)]))
   \<and> (\<exists>resposta.
        fst (analyze_absolution_with_llm str_exemplo (\<lambda>req. LlmJson resposta)
               (payload_de (JStr ''Joao Silva'') [processo_a]) ''12345678901'') =
          \<lparr>cpf = ''12345678901'', nome = JStr ''Joao Silva'', foi_absolvido = JStr ''talvez'',
           total_processos_criminais = 1, status = Sucesso, confianca_analise = JNum 250,
           justificativa = JStr [], detalhes_ia = JStr []\<rparr>)"
proof (intro conjI impI)
  assume p: "preparar_llm str bdc = Inr (Some (nm, procs, texto))" and b: "py_strip texto \<noteq> []"
    and s: "service (nm, c, texto) = LlmJson (JObj kvs)"
  have "analyze_with_llm service texto (nm, c) = (JObj kvs, [(nm, c, texto)])"
    using analyze_with_llm_json[OF b, of service "(nm, c)" "JObj kvs"] s by simp
  from analyze_absolution_with_llm_prepared[OF p this]
  show "analyze_absolution_with_llm str service bdc c =
        (\<lparr>cpf = c, nome = nm, foi_absolvido = dict_get kvs ''foi_absolvido'' JNull,
          total_processos_criminais = length procs, status = Sucesso,
          confianca_analise = dict_get kvs ''confianca_analise'' (JNum 0),
          justificativa = dict_get kvs ''justificativa'' (JStr []),
          detalhes_ia = dict_get kvs ''detalhes_ia'' (JStr [])\<rparr>, [(nm, c, texto)])" .
next
  show "\<exists>resposta.
        fst (analyze_absolution_with_llm str_exemplo (\<lambda>req. LlmJson resposta)
               (payload_de (JStr ''Joao Silva'') [processo_a]) ''12345678901'') =
          \<lparr>cpf = ''12345678901'', nome = JStr ''Joao Silva'', foi_absolvido = JStr ''talvez'',
           total_processos_criminais = 1, status = Sucesso, confianca_analise = JNum 250,
           justificativa = JStr [], detalhes_ia = JStr []\<rparr>"
    by (rule exI[where x = "JObj [(''foi_absolvido'', JStr ''talvez''), (''confianca_analise'', JNum 250)]"])
       code_simp
qed

theorem service_answer_is_copied_unchecked_witness:
  "preparar_llm str_exemplo (payload_de (JStr ''Joao Silva'') [processo_a]) =
        Inr (Some (JStr ''Joao Silva'', [processo_a], narrativa_a))
   \<and> py_strip narrativa_a \<noteq> []
   \<and> analyze_absolution_with_llm str_exemplo (\<lambda>req. LlmJson (JObj resposta_fora_do_contrato))
        (payload_de (JStr ''Joao Silva'') [processo_a]) ''12345678901'' =
        (\<lparr>cpf = ''12345678901'', nome = JStr ''Joao Silva'',
          foi_absolvido = dict_get resposta_fora_do_contrato ''foi_absolvido'' JNull,
          total_processos_criminais = length [processo_a], status = Sucesso,
          confianca_analise = dict_get resposta_fora_do_contrato ''confianca_analise'' (JNum 0),
          justificativa = dict_get resposta_fora_do_contrato ''justificativa'' (JStr []),
          detalhes_ia = dict_get resposta_fora_do_contrato ''detalhes_ia'' (JStr [])\<rparr>,
         [(JStr ''Joao Silva'', ''12345678901'', narrativa_a)])
   \<and> dict_get resposta_fora_do_contrato ''foi_absolvido'' JNull = JStr ''talvez''
   \<and> dict_get resposta_fora_do_contrato ''confianca_analise'' (JNum 0) = JNum 250
   \<and> dict_get resposta_fora_do_contrato ''justificativa'' (JStr []) = JStr []"
proof -
  have p: "preparar_llm str_exemplo (payload_de (JStr ''Joao Silva'') [processo_a]) =
        Inr (Some (JStr ''Joao Silva'', [processo_a], narrativa_a))" by code_simp
  have n: "py_strip narrativa_a \<noteq> []" by code_simp
  have s: "(\<lambda>req. LlmJson (JObj resposta_fora_do_contrato)) (JStr ''Joao Silva'', ''12345678901'', narrativa_a)
           = LlmJson (JObj resposta_fora_do_contrato)" by simp
  have d1: "dict_get resposta_fora_do_contrato ''foi_absolvido'' JNull = JStr ''talvez''" by code_simp
  have d2: "dict_get resposta_fora_do_contrato ''confianca_analise'' (JNum 0) = JNum 250" by code_simp
  have d3: "dict_get resposta_fora_do_contrato ''justificativa'' (JStr []) = JStr []" by code_simp
  show ?thesis
    by (intro conjI)
       (rule p n d1 d2 d3
          service_answer_is_copied_unchecked[where str = str_exemplo
            and bdc = "payload_de (JStr ''Joao Silva'') [processo_a]" and nm = "JStr ''Joao Silva''"
            and procs = "[processo_a]" and texto = narrativa_a and c = "''12345678901''"
            and service = "\<lambda>req. LlmJson (JObj resposta_fora_do_contrato)"
            and kvs = resposta_fora_do_contrato, THEN conjunct1, rule_format, OF p n s])+
qed

section \<open>Summary statistics\<close>





end
